theory Spec2Isabelle
  imports Main "HOL-Library.AList"
begin

section \<open>JavaScript values used by the class\<close>

text \<open>
  A thrown value. \<open>instanceof_Error\<close> is what \<^verbatim>\<open>error instanceof Error\<close> tests,
  \<open>code\<close> is the \<^verbatim>\<open>code\<close> property (the SQLSTATE of a driver error, absent on a
  plain \<^verbatim>\<open>new Error(msg)\<close>), \<open>message\<close> is the text.
\<close>

datatype thrown = Thrown (instanceof_Error: bool) (code: "string option") (message: string)

definition new_Error :: "string \<Rightarrow> thrown" where
  "new_Error msg = Thrown True None msg"

definition TypeError :: "string \<Rightarrow> thrown" where
  "TypeError msg = Thrown True None (''TypeError: '' @ msg)"

text \<open>
  The class keeps its dictionaries in plain object literals (\<^verbatim>\<open>this.tenantORMs = {}\<close>),
  and reads them with \<^verbatim>\<open>obj[key]\<close>. Such a read finds the object's own property, and
  otherwise falls through to \<^verbatim>\<open>Object.prototype\<close>, whose members are all truthy
  (functions, and for \<^verbatim>\<open>__proto__\<close> the prototype object itself).
  Own properties are an association list in insertion order.
\<close>

datatype 'a js_read = Own 'a | Inherited string | Undefined

definition Object_prototype :: "string list" where
  "Object_prototype =
     [''constructor'', ''__defineGetter__'', ''__defineSetter__'', ''hasOwnProperty'',
      ''__lookupGetter__'', ''__lookupSetter__'', ''isPrototypeOf'', ''propertyIsEnumerable'',
      ''toString'', ''valueOf'', ''__proto__'', ''toLocaleString'']"

definition js_get :: "(string \<times> 'a) list \<Rightarrow> string \<Rightarrow> 'a js_read" where
  "js_get obj key =
     (case map_of obj key of
        Some v \<Rightarrow> Own v
      | None \<Rightarrow> if key \<in> set Object_prototype then Inherited key else Undefined)"

text \<open>Every own value stored by the class is an object, hence truthy; only a miss is falsy.\<close>

fun truthy :: "'a js_read \<Rightarrow> bool" where
  "truthy (Own v) = True"
| "truthy (Inherited k) = True"
| "truthy Undefined = False"

text \<open>\<^verbatim>\<open>a || b\<close> on optional strings: \<^verbatim>\<open>undefined\<close> and the empty string are falsy.\<close>

fun string_truthy :: "string option \<Rightarrow> bool" where
  "string_truthy None = False"
| "string_truthy (Some x) = (x \<noteq> [])"

definition js_or :: "string option \<Rightarrow> string option \<Rightarrow> string option" where
  "js_or a b = (if string_truthy a then a else b)"

text \<open>
  \<^verbatim>\<open>String.prototype.toLowerCase\<close> on the ASCII letters; other characters are left as
  they are (the model's strings are byte strings).
\<close>

definition toLowerCase_char :: "char \<Rightarrow> char" where
  "toLowerCase_char c =
     (case map_of (zip ''ABCDEFGHIJKLMNOPQRSTUVWXYZ'' ''abcdefghijklmnopqrstuvwxyz'') c of
        Some d \<Rightarrow> d
      | None \<Rightarrow> c)"

definition toLowerCase :: "string \<Rightarrow> string" where
  "toLowerCase str = map toLowerCase_char str"

text \<open>\<^verbatim>\<open>str.indexOf(pat)\<close>: the first position where \<open>pat\<close> occurs, or \<open>-1\<close>.\<close>

fun indexOf_from :: "nat \<Rightarrow> string \<Rightarrow> string \<Rightarrow> int" where
  "indexOf_from i [] pat = (if pat = [] then int i else - 1)"
| "indexOf_from i (c # cs) pat =
     (if take (length pat) (c # cs) = pat then int i else indexOf_from (Suc i) cs pat)"

definition indexOf :: "string \<Rightarrow> string \<Rightarrow> int" where
  "indexOf str pat = indexOf_from 0 str pat"

text \<open>\<^verbatim>\<open>str.slice(-n)\<close>: the last \<open>n\<close> characters, the whole string when it is shorter.\<close>

definition slice_last :: "nat \<Rightarrow> string \<Rightarrow> string" where
  "slice_last n str = drop (length str - n) str"

text \<open>\<^verbatim>\<open>path.join(a, b)\<close>, without the normalisation of \<^verbatim>\<open>..\<close> segments.\<close>

definition path_join :: "string \<Rightarrow> string \<Rightarrow> string" where
  "path_join a b = a @ ''/'' @ b"

section \<open>Data model\<close>

text \<open>
  \<^verbatim>\<open>Knex.Config\<close>: the connection's database name, the units found in the configured
  migrations directory in the driver's listing order, and everything else (host,
  credentials, pool) as one opaque field.
\<close>

record Knex_Config =
  database :: string
  migrations :: "string list"
  settings :: string

text \<open>A handle returned by \<^verbatim>\<open>knex(config)\<close>; \<open>handle_id\<close> is the object's identity.\<close>

record Knex =
  handle_id :: nat
  config :: Knex_Config

text \<open>
  The object literal passed to \<^verbatim>\<open>insert\<close> (properties \<^verbatim>\<open>name\<close>, \<^verbatim>\<open>status\<close>,
  \<^verbatim>\<open>subdomain\<close>, \<^verbatim>\<open>dbName\<close>), and the row that comes back with its \<^verbatim>\<open>id\<close>.
\<close>

record new_tenant =
  tenant_name :: string
  tenant_status :: string
  tenant_subdomain :: string
  tenant_dbName :: string

record iTenant = new_tenant +
  row_id :: nat

text \<open>An entry of \<^verbatim>\<open>migrate.list()\<close>; both properties are optional in the interface.\<close>

record IMigration =
  file' :: "string option"
  name' :: "string option"

text \<open>
  A model class is a shared object: the module system evaluates a model file once and every
  later \<^verbatim>\<open>import()\<close> of the same path yields the same exports. A class is addressed by
  the module path and the export name. \<^verbatim>\<open>Model.knex(connection)\<close> stores the connection
  on the class itself (the README reads it back with \<^verbatim>\<open>User.knex()\<close>); the argument of
  the last \<^verbatim>\<open>associate\<close> call is what the class resolves its relations against.
\<close>

type_synonym class_ref = "string \<times> string"

type_synonym orm = "(string \<times> class_ref) list"

record model_class =
  class_knex :: "Knex option"
  associated :: "orm option"

text \<open>
  What a module exports under a name: a model class (with or without an \<^verbatim>\<open>associate\<close>
  hook), a plain function (which throws the given value when called, if any), or a value
  that is not callable.
\<close>

datatype js_export = ModelClass bool | Function "thrown option" | Value

record db =
  ledger :: "string list"
  Tenants :: "iTenant list option"

datatype console_entry =
    Console_log string
  | Console_warn string thrown
  | Console_error string thrown

text \<open>
  The environment of the class: the driver, the database server, the file system and the
  module cache. None of it is code of the repository.
  \<^item> \<open>next_handle\<close>, \<open>destroyed\<close>: identities handed out by \<^verbatim>\<open>knex()\<close>, and the handles
    on which \<^verbatim>\<open>destroy()\<close> was called;
  \<^item> \<open>databases\<close>: the physical databases by name, each with its applied-ledger and the
    rows of its tenants table (\<open>None\<close> when it has no such table);
  \<^item> \<open>up_faults\<close>: the value a unit's \<^verbatim>\<open>up\<close> throws in a database, for the units that fail;
  \<^item> \<open>tenants_units\<close>: the units whose \<^verbatim>\<open>up\<close> creates the tenants table;
  \<^item> \<open>insert_fault\<close>: a failure of the storage layer that hits the next insert;
  \<^item> \<open>directories\<close>: directory listings; \<open>modules\<close>: the exports of each loadable file;
  \<^item> \<open>classes\<close>: the state of the model classes loaded so far;
  \<^item> \<open>console\<close>: the lines written by \<^verbatim>\<open>console.log/warn/error\<close>, oldest first.
\<close>

record environment =
  next_handle :: nat
  destroyed :: "nat list"
  databases :: "(string \<times> db) list"
  up_faults :: "((string \<times> string) \<times> thrown) list"
  tenants_units :: "string list"
  insert_fault :: "thrown option"
  directories :: "(string \<times> string list) list"
  modules :: "(string \<times> (string \<times> js_export) list) list"
  classes :: "(class_ref \<times> model_class) list"
  console :: "console_entry list"

text \<open>
  The fields of \<^verbatim>\<open>MultiTenantKnex\<close>, on top of the environment. \<open>currentORM\<close> is
  typed \<^verbatim>\<open>any\<close>: it holds what was read for it, a binding (\<open>Own\<close>), a member inherited
  from \<^verbatim>\<open>Object.prototype\<close>, or \<^verbatim>\<open>undefined\<close>. The repository holds
  two variants of the class. The two-layout variant has the fields below. The single-layout
  variant has one \<^verbatim>\<open>knexConfig\<close>, one \<^verbatim>\<open>mainKnex\<close> and one \<^verbatim>\<open>modelsPath\<close>, used
  wherever the other variant uses the system or the tenant one; its methods are otherwise
  the same text, so it is the instance \<open>constructor1\<close> of this record.
\<close>

record state = environment +
  systemKnexConfig :: Knex_Config
  tenantKnexConfig :: Knex_Config
  systemKnex :: Knex
  tenantKnex :: Knex
  systemModelsPath :: string
  tenantModelsPath :: string
  tenantConnections :: "(string \<times> Knex) list"
  tenantORMs :: "(string \<times> orm) list"
  mainORM :: orm
  currentORM :: "orm js_read"
  tenantSeedRoute :: string

section \<open>Asynchronous methods as state transformers that may throw\<close>

type_synonym 'a io = "state \<Rightarrow> (thrown + 'a) \<times> state"

definition return :: "'a \<Rightarrow> 'a io" where
  "return x = (\<lambda>s. (Inr x, s))"

definition throw :: "thrown \<Rightarrow> 'a io" where
  "throw e = (\<lambda>s. (Inl e, s))"

text \<open>\<^verbatim>\<open>const x = await m; k(x)\<close>: a rejection of \<open>m\<close> skips \<open>k\<close>.\<close>

definition await :: "'a io \<Rightarrow> ('a \<Rightarrow> 'b io) \<Rightarrow> 'b io" where
  "await m k = (\<lambda>s. case m s of (Inl e, s') \<Rightarrow> (Inl e, s') | (Inr x, s') \<Rightarrow> k x s')"

text \<open>\<^verbatim>\<open>try { m } catch (error) { h(error) }\<close>.\<close>

definition try_catch :: "'a io \<Rightarrow> (thrown \<Rightarrow> 'a io) \<Rightarrow> 'a io" where
  "try_catch m h = (\<lambda>s. case m s of (Inl e, s') \<Rightarrow> h e s' | (Inr x, s') \<Rightarrow> (Inr x, s'))"

definition console_log :: "string \<Rightarrow> unit io" where
  "console_log msg = (\<lambda>s. (Inr (), s\<lparr>console := console s @ [Console_log msg]\<rparr>))"

definition console_warn :: "string \<Rightarrow> thrown \<Rightarrow> unit io" where
  "console_warn msg e = (\<lambda>s. (Inr (), s\<lparr>console := console s @ [Console_warn msg e]\<rparr>))"

definition console_error :: "string \<Rightarrow> thrown \<Rightarrow> unit io" where
  "console_error msg e = (\<lambda>s. (Inr (), s\<lparr>console := console s @ [Console_error msg e]\<rparr>))"

section \<open>The driver\<close>

text \<open>\<^verbatim>\<open>knex(config)\<close> builds a handle lazily: it allocates, and does not connect.\<close>

definition knex :: "Knex_Config \<Rightarrow> 'a environment_scheme \<Rightarrow> Knex \<times> 'a environment_scheme" where
  "knex cfg s = (\<lparr>handle_id = next_handle s, config = cfg\<rparr>, s\<lparr>next_handle := Suc (next_handle s)\<rparr>)"

definition destroy :: "Knex \<Rightarrow> state \<Rightarrow> state" where
  "destroy connection s = s\<lparr>destroyed := handle_id connection # destroyed s\<rparr>"

text \<open>A query needs a handle that was not destroyed and a database that exists.\<close>

definition connect :: "Knex \<Rightarrow> state \<Rightarrow> thrown + db" where
  "connect connection s =
     (if handle_id connection \<in> set (destroyed s)
      then Inl (new_Error ''Unable to acquire a connection'')
      else case map_of (databases s) (database (config connection)) of
             None \<Rightarrow> Inl (Thrown True (Some ''3D000'') ''database does not exist'')
           | Some d \<Rightarrow> Inr d)"

definition pending_units :: "Knex \<Rightarrow> db \<Rightarrow> string list" where
  "pending_units connection d = filter (\<lambda>f. f \<notin> set (ledger d)) (migrations (config connection))"

text \<open>
  \<^verbatim>\<open>connection.migrate.list()\<close> resolves to the pair of completed and pending units; the
  class reads the second component only, which is what this returns: the configured units
  that the database's ledger does not hold, each as an entry with its file name.
\<close>

definition migrate_list :: "Knex \<Rightarrow> IMigration list io" where
  "migrate_list connection s =
     (case connect connection s of
        Inl e \<Rightarrow> (Inl e, s)
      | Inr d \<Rightarrow> (Inr (map (\<lambda>f. \<lparr>file' = Some f, name' = None\<rparr>) (pending_units connection d)), s))"

text \<open>
  Modelled from the spec: \<^verbatim>\<open>connection.migrate.up({name})\<close>, the driver's operation that
  applies one unit. A unit whose \<^verbatim>\<open>up\<close> succeeds is recorded in the applied-ledger of that
  database; a unit whose \<^verbatim>\<open>up\<close> fails leaves the ledger as it was and its error reaches
  the caller. With a name the driver runs that unit if it is still pending, does nothing
  if it was applied, and rejects an unknown name; without a name it runs the first
  pending unit.
\<close>

definition select_unit :: "Knex \<Rightarrow> db \<Rightarrow> string option \<Rightarrow> thrown + string option" where
  "select_unit connection d nm =
     (if string_truthy nm
      then (if the nm \<in> set (ledger d) then Inr None
            else if the nm \<in> set (pending_units connection d) then Inr nm
            else Inl (new_Error (''Migration '' @ the nm @ '' not found.'')))
      else (case pending_units connection d of [] \<Rightarrow> Inr None | f # fs \<Rightarrow> Inr (Some f)))"

definition apply_unit :: "string \<Rightarrow> string \<Rightarrow> db \<Rightarrow> unit io" where
  "apply_unit dbname f d s =
     (case map_of (up_faults s) (dbname, f) of
        Some e \<Rightarrow> (Inl e, s)
      | None \<Rightarrow>
          (Inr (), s\<lparr>databases := AList.update dbname
             (d\<lparr>ledger := ledger d @ [f],
                Tenants := (if f \<in> set (tenants_units s) \<and> Tenants d = None then Some [] else Tenants d)\<rparr>)
             (databases s)\<rparr>))"

definition migrate_up :: "Knex \<Rightarrow> string option \<Rightarrow> unit io" where
  "migrate_up connection nm s =
     (case connect connection s of
        Inl e \<Rightarrow> (Inl e, s)
      | Inr d \<Rightarrow>
          (case select_unit connection d nm of
             Inl e \<Rightarrow> (Inl e, s)
           | Inr None \<Rightarrow> (Inr (), s)
           | Inr (Some f) \<Rightarrow> apply_unit (database (config connection)) f d s))"

section \<open>Connection registry\<close>

text \<open>
  \<^verbatim>\<open>_createTenantConnection(subdomain)\<close>. The test \<^verbatim>\<open>if (this.tenantConnections[subdomain])\<close>
  is true for an own handle and for an inherited member; on the latter
  \<^verbatim>\<open>.destroy()\<close> is a call of \<^verbatim>\<open>undefined\<close>.
\<close>

definition createTenantConnection :: "string \<Rightarrow> Knex io" where
  "createTenantConnection subdomain s =
     (case js_get (tenantConnections s) subdomain of
        Inherited k \<Rightarrow>
          (Inl (TypeError ''this.tenantConnections[subdomain].destroy is not a function''), s)
      | found \<Rightarrow>
          (let s1 = (case found of Own old \<Rightarrow> destroy old s | _ \<Rightarrow> s);
               (tenantConnection, s2) =
                  knex ((tenantKnexConfig s1)\<lparr>database := ''tenant_'' @ subdomain\<rparr>) s1
           in (Inr tenantConnection,
               s2\<lparr>tenantConnections := AList.update subdomain tenantConnection (tenantConnections s2)\<rparr>)))"

section \<open>Migration orchestrator\<close>

text \<open>
  The function returned by \<^verbatim>\<open>_initializeMigrations\<close> closes over the connection and the
  pending list; it is the pair of the two, and \<open>run_migrations\<close> is its body, the loop
  \<^verbatim>\<open>for (const migrationFile of pendingMigrations) await connection.migrate.up(...)\<close>.
\<close>

type_synonym migration_fn = "Knex \<times> IMigration list"

fun run_migrations :: "Knex \<Rightarrow> IMigration list \<Rightarrow> unit io" where
  "run_migrations connection [] s = (Inr (), s)"
| "run_migrations connection (migrationFile # rest) s =
     (case migrate_up connection (js_or (file' migrationFile) (name' migrationFile)) s of
        (Inl e, s') \<Rightarrow> (Inl e, s')
      | (Inr u, s') \<Rightarrow> run_migrations connection rest s')"

definition call_migration :: "migration_fn \<Rightarrow> unit io" where
  "call_migration f = run_migrations (fst f) (snd f)"

definition initializeMigrations :: "Knex \<Rightarrow> migration_fn option io" where
  "initializeMigrations connection =
     try_catch
       (await (migrate_list connection) (\<lambda>pendingMigrations.
        await (console_log ''pendingMigrations v1.1.0'') (\<lambda>_.
        if length pendingMigrations = 0
        then await (console_log ''No new migrations to run. Migrations are already up to date.'')
               (\<lambda>_. return None)
        else return (Some (connection, pendingMigrations)))))
       (\<lambda>error.
        await (console_error
                 (if instanceof_Error error then ''Error initializing migrations:''
                  else ''Unexpected error initializing migrations:'') error)
          (\<lambda>_. throw error))"

text \<open>\<^verbatim>\<open>if (migrate) await migrate();\<close>\<close>

definition call_if_present :: "migration_fn option \<Rightarrow> unit io" where
  "call_if_present migrate = (case migrate of None \<Rightarrow> return () | Some f \<Rightarrow> call_migration f)"

section \<open>File system and module loading\<close>

text \<open>\<^verbatim>\<open>fs.readdirSync(dir)\<close> and the promisified \<^verbatim>\<open>fs.readdir\<close>.\<close>

definition readdir :: "string \<Rightarrow> string list io" where
  "readdir dir s =
     (case map_of (directories s) dir of
        None \<Rightarrow> (Inl (Thrown True (Some ''ENOENT'') ''no such file or directory''), s)
      | Some files \<Rightarrow> (Inr files, s))"

text \<open>\<^verbatim>\<open>await import(path)\<close>: the exports of the module, in their enumeration order.\<close>

definition import_module :: "string \<Rightarrow> (string \<times> js_export) list io" where
  "import_module p s =
     (case map_of (modules s) p of
        None \<Rightarrow> (Inl (Thrown True (Some ''ERR_MODULE_NOT_FOUND'') ''Cannot find module''), s)
      | Some exports \<Rightarrow> (Inr exports, s))"

section \<open>Seed runner\<close>

text \<open>
  \<^verbatim>\<open>typeof seederModule.seed === "function"\<close> holds for a function and for a class.
  A seeder is the closure \<^verbatim>\<open>() => seederModule.seed(connection)\<close>; it is kept as the
  export it will call. Calling a class without \<^verbatim>\<open>new\<close> is a TypeError.
\<close>

fun collect_seeders :: "string \<Rightarrow> string list \<Rightarrow> js_export list \<Rightarrow> js_export list io" where
  "collect_seeders seedDirectory [] seeders s = (Inr seeders, s)"
| "collect_seeders seedDirectory (seedFile # rest) seeders s =
     (case import_module (path_join seedDirectory seedFile) s of
        (Inl e, s') \<Rightarrow> (Inl e, s')
      | (Inr seederModule, s') \<Rightarrow>
          (case map_of seederModule ''seed'' of
             Some (Function r) \<Rightarrow> collect_seeders seedDirectory rest (seeders @ [Function r]) s'
           | Some (ModelClass a) \<Rightarrow> collect_seeders seedDirectory rest (seeders @ [ModelClass a]) s'
           | _ \<Rightarrow> collect_seeders seedDirectory rest seeders s'))"

fun run_seeders :: "js_export list \<Rightarrow> unit io" where
  "run_seeders [] s = (Inr (), s)"
| "run_seeders (seeder # rest) s =
     (case seeder of
        Function None \<Rightarrow> run_seeders rest s
      | Function (Some e) \<Rightarrow> (Inl e, s)
      | _ \<Rightarrow> (Inl (TypeError ''Class constructor cannot be invoked without new''), s))"

definition initializeSeeders :: "Knex \<Rightarrow> string \<Rightarrow> js_export list io" where
  "initializeSeeders connection globPattern =
     try_catch
       (await (readdir globPattern) (\<lambda>seedFiles.
        collect_seeders globPattern seedFiles []))
       (\<lambda>error. await (console_error ''Error initializing seeders:'' error) (\<lambda>_. throw error))"

section \<open>ORM binder\<close>

definition getModelFiles :: "string \<Rightarrow> string list io" where
  "getModelFiles dirPath =
     await (readdir dirPath) (\<lambda>files.
     return (filter (\<lambda>file.
        indexOf file ''.'' \<noteq> 0 \<and>
        slice_last 9 file = ''.model.ts'' \<and>
        indexOf file ''.test.ts'' = - 1) files))"

text \<open>\<^verbatim>\<open>modelClass.knex(connection)\<close> and \<^verbatim>\<open>modelClass.associate(orm)\<close> write to the class.\<close>

definition the_class :: "state \<Rightarrow> class_ref \<Rightarrow> model_class" where
  "the_class s r =
     (case map_of (classes s) r of
        None \<Rightarrow> \<lparr>class_knex = None, associated = None\<rparr>
      | Some c \<Rightarrow> c)"

definition set_knex :: "class_ref \<Rightarrow> Knex \<Rightarrow> state \<Rightarrow> state" where
  "set_knex r connection s =
     s\<lparr>classes := AList.update r ((the_class s r)\<lparr>class_knex := Some connection\<rparr>) (classes s)\<rparr>"

definition set_associated :: "class_ref \<Rightarrow> orm \<Rightarrow> state \<Rightarrow> state" where
  "set_associated r orm s =
     s\<lparr>classes := AList.update r ((the_class s r)\<lparr>associated := Some orm\<rparr>) (classes s)\<rparr>"

definition has_associate :: "state \<Rightarrow> class_ref \<Rightarrow> bool" where
  "has_associate s r =
     (case map_of (modules s) (fst r) of
        None \<Rightarrow> False
      | Some exports \<Rightarrow> map_of exports (snd r) = Some (ModelClass True))"

text \<open>
  The inner loop \<^verbatim>\<open>for (const modelName in modelModule)\<close>: the export is stored in the
  binding first, then bound; an export without a \<^verbatim>\<open>knex\<close> method stops the loop with a
  TypeError.
\<close>

fun bind_exports :: "Knex \<Rightarrow> string \<Rightarrow> (string \<times> js_export) list \<Rightarrow> orm \<Rightarrow> orm io" where
  "bind_exports connection p [] orm s = (Inr orm, s)"
| "bind_exports connection p ((modelName, ex) # rest) orm s =
     (case ex of
        ModelClass a \<Rightarrow>
          bind_exports connection p rest (AList.update modelName (p, modelName) orm)
            (set_knex (p, modelName) connection s)
      | _ \<Rightarrow> (Inl (TypeError ''modelModule[modelName].knex is not a function''), s))"

text \<open>
  The callbacks of \<^verbatim>\<open>Promise.all(modelFiles.map(async (file) => ...))\<close>, taken in the
  order of the listing. \<^verbatim>\<open>Promise.all\<close> rejects with a failed callback's error, and the
  other callbacks still run: their classes are bound all the same.
\<close>

fun import_files :: "Knex \<Rightarrow> string \<Rightarrow> string list \<Rightarrow> orm \<Rightarrow> orm io" where
  "import_files connection modelsPath [] orm s = (Inr orm, s)"
| "import_files connection modelsPath (file # rest) orm s =
     (case await (import_module (path_join modelsPath file))
             (\<lambda>modelModule. bind_exports connection (path_join modelsPath file) modelModule orm) s of
        (Inl e, s') \<Rightarrow> (Inl e, snd (import_files connection modelsPath rest orm s'))
      | (Inr orm', s') \<Rightarrow> import_files connection modelsPath rest orm' s')"

text \<open>\<^verbatim>\<open>Object.keys(orm).forEach(...)\<close>: each class with the hook receives the binding itself.\<close>

fun associate_all :: "orm \<Rightarrow> string list \<Rightarrow> state \<Rightarrow> state" where
  "associate_all orm [] s = s"
| "associate_all orm (modelName # rest) s =
     (case map_of orm modelName of
        None \<Rightarrow> associate_all orm rest s
      | Some modelClass \<Rightarrow>
          associate_all orm rest
            (if has_associate s modelClass then set_associated modelClass orm s else s))"

text \<open>
  \<^verbatim>\<open>_importModels(connection, modelsPath)\<close>; the single-layout variant passes
  \<^verbatim>\<open>this.modelsPath\<close>.
\<close>

definition importModels :: "Knex \<Rightarrow> string \<Rightarrow> orm io" where
  "importModels connection modelsPath =
     await (getModelFiles modelsPath) (\<lambda>modelFiles.
     await (import_files connection modelsPath modelFiles []) (\<lambda>orm.
     (\<lambda>s. (Inr orm, associate_all orm (map fst orm) s))))"

section \<open>The tenant registry in the system database\<close>

text \<open>
  \<^verbatim>\<open>Model.query().insert(row)\<close> runs on the connection the class is bound to at that
  moment. The table rejects a second row with the same name (the README's migration
  declares \<^verbatim>\<open>name\<close> unique) with SQLSTATE 23505.
\<close>

definition insert_row :: "Knex \<Rightarrow> new_tenant \<Rightarrow> iTenant io" where
  "insert_row connection row s =
     (case connect connection s of
        Inl e \<Rightarrow> (Inl e, s)
      | Inr d \<Rightarrow>
          (case insert_fault s of
             Some e \<Rightarrow> (Inl e, s)
           | None \<Rightarrow>
               (case Tenants d of
                  None \<Rightarrow> (Inl (Thrown True (Some ''42P01'') ''relation does not exist''), s)
                | Some rows \<Rightarrow>
                    if tenant_name row \<in> set (map tenant_name rows)
                    then (Inl (Thrown True (Some ''23505'')
                                 ''duplicate key value violates unique constraint''), s)
                    else
                      (let tenant = \<lparr>tenant_name = tenant_name row,
                                     tenant_status = tenant_status row,
                                     tenant_subdomain = tenant_subdomain row,
                                     tenant_dbName = tenant_dbName row,
                                     row_id = Suc (length rows)\<rparr>
                       in (Inr tenant,
                           s\<lparr>databases := AList.update (database (config connection))
                                (d\<lparr>Tenants := Some (rows @ [tenant])\<rparr>) (databases s)\<rparr>)))))"

text \<open>\<^verbatim>\<open>this.mainORM.Tenant.query().insert(row)\<close>\<close>

definition Tenant_insert :: "new_tenant \<Rightarrow> iTenant io" where
  "Tenant_insert row s =
     (case js_get (mainORM s) ''Tenant'' of
        Own modelClass \<Rightarrow>
          (case class_knex (the_class s modelClass) of
             None \<Rightarrow> (Inl (new_Error ''no database connection available for a query''), s)
           | Some connection \<Rightarrow> insert_row connection row s)
      | _ \<Rightarrow> (Inl (TypeError ''Cannot read properties of undefined (reading query)''), s))"

text \<open>\<^verbatim>\<open>this.systemKnex.raw(`CREATE DATABASE ...`)\<close>\<close>

definition create_database :: "string \<Rightarrow> unit io" where
  "create_database dbname s =
     (case connect (systemKnex s) s of
        Inl e \<Rightarrow> (Inl e, s)
      | Inr d \<Rightarrow>
          (case map_of (databases s) dbname of
             Some existing \<Rightarrow> (Inl (Thrown True (Some ''42P04'') ''database already exists''), s)
           | None \<Rightarrow>
               (Inr (), s\<lparr>databases := AList.update dbname \<lparr>ledger = [], Tenants = None\<rparr>
                                          (databases s)\<rparr>)))"

text \<open>\<^verbatim>\<open>getDbTenants()\<close>: every row of the tenants table, read through the system handle.\<close>

definition getDbTenants :: "iTenant list io" where
  "getDbTenants s =
     (case connect (systemKnex s) s of
        Inl e \<Rightarrow> (Inl e, s)
      | Inr d \<Rightarrow>
          (case Tenants d of
             None \<Rightarrow> (Inl (Thrown True (Some ''42P01'') ''relation does not exist''), s)
           | Some rows \<Rightarrow> (Inr rows, s)))"

section \<open>Tenant lifecycle controller\<close>

text \<open>
  The constructor of the two-layout variant, and of the single-layout variant, whose one
  handle \<^verbatim>\<open>mainKnex\<close> stands wherever the other variant has \<^verbatim>\<open>systemKnex\<close> or
  \<^verbatim>\<open>tenantKnex\<close>. \<^verbatim>\<open>this.currentORM = this.mainORM\<close> stores the empty object created
  on the line before.
\<close>

definition constructor2 ::
  "Knex_Config \<Rightarrow> Knex_Config \<Rightarrow> string \<Rightarrow> string \<Rightarrow> environment \<Rightarrow> state" where
  "constructor2 systemKnexConfig' tenantKnexConfig' systemModelsPath' tenantModelsPath' env =
     (let (systemKnex', env1) = knex systemKnexConfig' env;
          (tenantKnex', env2) = knex tenantKnexConfig' env1
      in \<lparr>next_handle = next_handle env2, destroyed = destroyed env2,
          databases = databases env2, up_faults = up_faults env2,
          tenants_units = tenants_units env2, insert_fault = insert_fault env2,
          directories = directories env2, modules = modules env2,
          classes = classes env2, console = console env2,
          systemKnexConfig = systemKnexConfig', tenantKnexConfig = tenantKnexConfig',
          systemKnex = systemKnex', tenantKnex = tenantKnex',
          systemModelsPath = systemModelsPath', tenantModelsPath = tenantModelsPath',
          tenantConnections = [], tenantORMs = [], mainORM = [], currentORM = Own [],
          tenantSeedRoute = ''../../../knex/seeds/tenant''\<rparr>)"

definition constructor1 :: "Knex_Config \<Rightarrow> string \<Rightarrow> environment \<Rightarrow> state" where
  "constructor1 knexConfig modelsPath env =
     (let (mainKnex, env1) = knex knexConfig env
      in \<lparr>next_handle = next_handle env1, destroyed = destroyed env1,
          databases = databases env1, up_faults = up_faults env1,
          tenants_units = tenants_units env1, insert_fault = insert_fault env1,
          directories = directories env1, modules = modules env1,
          classes = classes env1, console = console env1,
          systemKnexConfig = knexConfig, tenantKnexConfig = knexConfig,
          systemKnex = mainKnex, tenantKnex = mainKnex,
          systemModelsPath = modelsPath, tenantModelsPath = modelsPath,
          tenantConnections = [], tenantORMs = [], mainORM = [], currentORM = Own [],
          tenantSeedRoute = ''../../knex/seeds''\<rparr>)"

definition buildMainORM :: "unit io" where
  "buildMainORM s =
     await (importModels (systemKnex s) (systemModelsPath s))
       (\<lambda>orm s'. (Inr (), s'\<lparr>mainORM := orm\<rparr>)) s"

definition createTenant :: "string \<Rightarrow> iTenant io" where
  "createTenant subdomain0 =
     (let subdomain = toLowerCase subdomain0 in
      await
        (try_catch
           (Tenant_insert \<lparr>tenant_name = subdomain, tenant_status = ''active'',
                           tenant_subdomain = subdomain, tenant_dbName = ''tenant_'' @ subdomain\<rparr>)
           (\<lambda>error.
              await (console_error [] error) (\<lambda>_.
              if code error = Some ''23505''
              then throw (new_Error ''Subdomain already exists'')
              else throw (new_Error ''Something went wrong''))))
        (\<lambda>tenant.
      await (create_database (''tenant_'' @ subdomain)) (\<lambda>_.
      await (createTenantConnection subdomain) (\<lambda>tenantConnection s.
        (let pathSeeds = path_join (tenantModelsPath s) (tenantSeedRoute s) in
         await (initializeMigrations tenantConnection) (\<lambda>migrationTenant.
         await (call_if_present migrationTenant) (\<lambda>_.
         await (initializeSeeders tenantConnection pathSeeds) (\<lambda>seedersTenant.
         await (run_seeders seedersTenant) (\<lambda>_.
         await (importModels tenantConnection (tenantModelsPath s)) (\<lambda>orm s'.
           (Inr tenant, s'\<lparr>tenantORMs := AList.update subdomain orm (tenantORMs s')\<rparr>))))))) s))))"

definition migrateMainDb :: "unit io" where
  "migrateMainDb s =
     await (initializeMigrations (tenantKnex s)) (\<lambda>migrateMainDb'.
       try_catch (call_if_present migrateMainDb')
         (\<lambda>error.
            await (console_error
                     (if instanceof_Error error then ''Error initializing migrations:''
                      else ''Unexpected error initializing migrations:'') error)
              (\<lambda>_. throw error))) s"

text \<open>
  \<^verbatim>\<open>Promise.all(tenants.map(async (tenant) => ...))\<close>: the callbacks in the order of the
  rows; every callback runs, and the result is the list of their results or the error of
  a failed one.
\<close>

fun plan_all :: "iTenant list \<Rightarrow> migration_fn option list io" where
  "plan_all [] s = (Inr [], s)"
| "plan_all (tenant # rest) s =
     (case await (createTenantConnection (tenant_subdomain tenant)) initializeMigrations s of
        (Inl e, s') \<Rightarrow> (Inl e, snd (plan_all rest s'))
      | (Inr migrate, s') \<Rightarrow>
          (case plan_all rest s' of
             (Inl e, s'') \<Rightarrow> (Inl e, s'')
           | (Inr fs, s'') \<Rightarrow> (Inr (migrate # fs), s'')))"

text \<open>The loop \<^verbatim>\<open>for (const migrate of migrationFunctions)\<close> with its inner try/catch.\<close>

fun migrate_each :: "migration_fn option list \<Rightarrow> unit io" where
  "migrate_each [] s = (Inr (), s)"
| "migrate_each (migrate # rest) s =
     (case migrate of
        None \<Rightarrow> migrate_each rest s
      | Some f \<Rightarrow>
          (case call_migration f s of
             (Inl error, s') \<Rightarrow>
               if instanceof_Error error
               then migrate_each rest (snd (console_warn ''Migration warning for tenant'' error s'))
               else (Inl error, s')
           | (Inr u, s') \<Rightarrow> migrate_each rest s'))"

definition migrateAllTenants :: "unit io" where
  "migrateAllTenants =
     try_catch
       (await getDbTenants (\<lambda>tenants.
        await (plan_all tenants) (\<lambda>migrationFunctions.
        await (migrate_each migrationFunctions) (\<lambda>_.
        console_log ''All tenant migrations completed successfully.''))))
       (\<lambda>error. await (console_error ''Error migrating all tenants:'' error) (\<lambda>_. throw error))"

fun seed_plan_all :: "string \<Rightarrow> iTenant list \<Rightarrow> js_export list list io" where
  "seed_plan_all pathSeeds [] s = (Inr [], s)"
| "seed_plan_all pathSeeds (tenant # rest) s =
     (case await (createTenantConnection (tenant_subdomain tenant))
             (\<lambda>tenantConnection. initializeSeeders tenantConnection pathSeeds) s of
        (Inl e, s') \<Rightarrow> (Inl e, snd (seed_plan_all pathSeeds rest s'))
      | (Inr seed, s') \<Rightarrow>
          (case seed_plan_all pathSeeds rest s' of
             (Inl e, s'') \<Rightarrow> (Inl e, s'')
           | (Inr fs, s'') \<Rightarrow> (Inr (seed # fs), s'')))"

fun seed_each :: "js_export list list \<Rightarrow> unit io" where
  "seed_each [] s = (Inr (), s)"
| "seed_each (seed # rest) s =
     (case run_seeders seed s of
        (Inl error, s') \<Rightarrow>
          if instanceof_Error error
          then seed_each rest (snd (console_warn ''Seed warning for tenant'' error s'))
          else (Inl error, s')
      | (Inr u, s') \<Rightarrow> seed_each rest s')"

definition seedsAllTenants :: "unit io" where
  "seedsAllTenants =
     try_catch
       (await getDbTenants (\<lambda>tenants s.
          (let pathSeeds = path_join (tenantModelsPath s) (tenantSeedRoute s) in
           await (seed_plan_all pathSeeds tenants) (\<lambda>seedsFunctions.
           await (seed_each seedsFunctions) (\<lambda>_.
           console_log ''All tenant seeds completed successfully.''))) s))
       (\<lambda>error. await (console_error ''Error seeding all tenants:'' error) (\<lambda>_. throw error))"

text \<open>\<^verbatim>\<open>migrate()\<close> of the single-layout variant, and of the two-layout variant.\<close>

definition migrate1 :: "unit io" where
  "migrate1 = await migrateMainDb (\<lambda>_. await migrateAllTenants (\<lambda>_. seedsAllTenants))"

definition migrate2 :: "unit io" where
  "migrate2 = await migrateAllTenants (\<lambda>_. seedsAllTenants)"

text \<open>\<^verbatim>\<open>tenants.forEach((tenant) => this._createTenantConnection(tenant.subdomain))\<close>\<close>

fun connect_each :: "iTenant list \<Rightarrow> unit io" where
  "connect_each [] s = (Inr (), s)"
| "connect_each (tenant # rest) s =
     (case createTenantConnection (tenant_subdomain tenant) s of
        (Inl e, s') \<Rightarrow> (Inl e, s')
      | (Inr c, s') \<Rightarrow> connect_each rest s')"

definition buildTenantConnections :: "unit io" where
  "buildTenantConnections = await getDbTenants connect_each"

text \<open>
  \<^verbatim>\<open>for (const subdomain in this.tenantConnections)\<close>, over the own keys in insertion
  order.
\<close>

fun bind_each :: "(string \<times> Knex) list \<Rightarrow> unit io" where
  "bind_each [] s = (Inr (), s)"
| "bind_each ((subdomain, connection) # rest) s =
     (case importModels connection (tenantModelsPath s) s of
        (Inl e, s') \<Rightarrow> (Inl e, s')
      | (Inr orm, s') \<Rightarrow>
          bind_each rest (s'\<lparr>tenantORMs := AList.update subdomain orm (tenantORMs s')\<rparr>))"

definition buildTenantORMs :: "unit io" where
  "buildTenantORMs =
     await (\<lambda>s. if length (map fst (tenantConnections s)) = 0
                 then buildTenantConnections s else (Inr (), s))
       (\<lambda>_ s. bind_each (tenantConnections s) s)"

definition setCurrentORM :: "string \<Rightarrow> unit io" where
  "setCurrentORM subdomain s =
     (if \<not> truthy (js_get (tenantORMs s) subdomain)
      then (Inl (new_Error (''No tenant with subdomain '' @ subdomain)), s)
      else console_log ''currentORM'' (s\<lparr>currentORM := js_get (tenantORMs s) subdomain\<rparr>))"

definition setCurrentTenantConnection :: "string \<Rightarrow> unit io" where
  "setCurrentTenantConnection subdomain s =
     (if \<not> truthy (js_get (tenantORMs s) subdomain)
      then (Inl (new_Error (''No tenant with subdomain '' @ subdomain)), s)
      else
        await (createTenantConnection subdomain) (\<lambda>tenantConnection s1.
        await (importModels tenantConnection (tenantModelsPath s1)) (\<lambda>orm s2.
          (let s3 = s2\<lparr>tenantORMs := AList.update subdomain orm (tenantORMs s2)\<rparr>;
               s4 = s3\<lparr>currentORM := js_get (tenantORMs s3) subdomain\<rparr>
           in console_log ''currentORM'' s4)) s1) s)"

definition setCurrentMainConnection :: "unit io" where
  "setCurrentMainConnection s =
     await (importModels (systemKnex s) (systemModelsPath s))
       (\<lambda>orm s'. (Inr (), s'\<lparr>mainORM := orm, currentORM := Own orm\<rparr>)) s"

definition getCurrentORM :: "orm js_read io" where
  "getCurrentORM s =
     (if \<not> truthy (currentORM s)
      then (Inl (new_Error ''No current db set''), s)
      else (Inr (currentORM s), s))"

section \<open>Vocabulary of the statements\<close>

text \<open>The value a unit's \<^verbatim>\<open>up\<close> would throw on a connection, if it fails there.\<close>

definition unit_fault :: "state \<Rightarrow> Knex \<Rightarrow> string \<Rightarrow> thrown option" where
  "unit_fault s connection f = map_of (up_faults s) (database (config connection), f)"

text \<open>
  What applying a list of units reports: the value thrown by the first unit that fails,
  or nothing when none fails.
\<close>

definition first_fault :: "state \<Rightarrow> Knex \<Rightarrow> string list \<Rightarrow> thrown + unit" where
  "first_fault s c ns =
     (case dropWhile (\<lambda>f. unit_fault s c f = None) ns of
        [] \<Rightarrow> Inr ()
      | b # rest \<Rightarrow> Inl (the (unit_fault s c b)))"






section \<open>State predicates and the fields they read\<close>

text \<open>
  \<open>preserves P m\<close>: running \<open>m\<close> from a state that satisfies \<open>P\<close> ends, normally or with
  an error, in a state that satisfies \<open>P\<close>. The predicates \<open>ignores_*\<close> say that \<open>P\<close>
  does not read a group of fields.
\<close>

definition preserves :: "(state \<Rightarrow> bool) \<Rightarrow> 'a io \<Rightarrow> bool" where
  "preserves P m \<longleftrightarrow> (\<forall>s. P s \<longrightarrow> P (snd (m s)))"

definition ignores_console :: "(state \<Rightarrow> bool) \<Rightarrow> bool" where
  "ignores_console P \<longleftrightarrow> (\<forall>s x. P (s\<lparr>console := x\<rparr>) = P s)"

definition ignores_classes :: "(state \<Rightarrow> bool) \<Rightarrow> bool" where
  "ignores_classes P \<longleftrightarrow> (\<forall>s x. P (s\<lparr>classes := x\<rparr>) = P s)"

definition ignores_databases :: "(state \<Rightarrow> bool) \<Rightarrow> bool" where
  "ignores_databases P \<longleftrightarrow> (\<forall>s x. P (s\<lparr>databases := x\<rparr>) = P s)"


definition ignores_bindings :: "(state \<Rightarrow> bool) \<Rightarrow> bool" where
  "ignores_bindings P \<longleftrightarrow> (\<forall>s x. P (s\<lparr>tenantORMs := x\<rparr>) = P s)"

definition ignores_mainORM :: "(state \<Rightarrow> bool) \<Rightarrow> bool" where
  "ignores_mainORM P \<longleftrightarrow> (\<forall>s x. P (s\<lparr>mainORM := x\<rparr>) = P s)"

section \<open>Reachable states\<close>

text \<open>
  The states an instance can be in: either constructor, in an environment whose destroyed
  handles were handed out before, then any sequence of calls of the public methods, one
  after the other, with the outside world (databases, failing units, files and modules)
  changing freely between calls.
\<close>

inductive reachable :: "state \<Rightarrow> bool" where
  new1: "\<forall>i \<in> set (destroyed env). i < next_handle env \<Longrightarrow>
     reachable (constructor1 knexConfig modelsPath env)"
| new2: "\<forall>i \<in> set (destroyed env). i < next_handle env \<Longrightarrow>
     reachable (constructor2 systemConfig tenantConfig systemPath tenantPath env)"
| world: "reachable s \<Longrightarrow>
     reachable (s\<lparr>databases := dbs, up_faults := faults, tenants_units := units,
                  insert_fault := fault, directories := dirs, modules := mods\<rparr>)"
| call_buildMainORM: "reachable s \<Longrightarrow> reachable (snd (buildMainORM s))"
| call_createTenant: "reachable s \<Longrightarrow> reachable (snd (createTenant subdomain s))"
| call_migrate1: "reachable s \<Longrightarrow> reachable (snd (migrate1 s))"
| call_migrate2: "reachable s \<Longrightarrow> reachable (snd (migrate2 s))"
| call_migrateMainDb: "reachable s \<Longrightarrow> reachable (snd (migrateMainDb s))"
| call_migrateAllTenants: "reachable s \<Longrightarrow> reachable (snd (migrateAllTenants s))"
| call_seedsAllTenants: "reachable s \<Longrightarrow> reachable (snd (seedsAllTenants s))"
| call_getDbTenants: "reachable s \<Longrightarrow> reachable (snd (getDbTenants s))"
| call_buildTenantConnections: "reachable s \<Longrightarrow> reachable (snd (buildTenantConnections s))"
| call_buildTenantORMs: "reachable s \<Longrightarrow> reachable (snd (buildTenantORMs s))"
| call_setCurrentORM: "reachable s \<Longrightarrow> reachable (snd (setCurrentORM subdomain s))"
| call_setCurrentTenantConnection:
    "reachable s \<Longrightarrow> reachable (snd (setCurrentTenantConnection subdomain s))"
| call_setCurrentMainConnection: "reachable s \<Longrightarrow> reachable (snd (setCurrentMainConnection s))"
| call_getCurrentORM: "reachable s \<Longrightarrow> reachable (snd (getCurrentORM s))"

text \<open>
  The registry is well formed: one entry per tenant id, and every identity in use, live or
  destroyed, was handed out by an earlier \<^verbatim>\<open>knex()\<close> call.
\<close>

definition registry_ok :: "state \<Rightarrow> bool" where
  "registry_ok s \<longleftrightarrow>
     distinct (map fst (tenantConnections s)) \<and>
     (\<forall>h \<in> snd ` set (tenantConnections s). handle_id h < next_handle s) \<and>
     (\<forall>i \<in> set (destroyed s). i < next_handle s)"


section \<open>A concrete installation\<close>

text \<open>
  The README's single-layout project, cut down to two units and two model files: the
  system database \<open>main\<close> is migrated and its tenants table is empty, the models directory
  holds \<^verbatim>\<open>user.model.ts\<close> (with an \<^verbatim>\<open>associate\<close> hook) and \<^verbatim>\<open>tenant.model.ts\<close>,
  and the seeds directory is empty.
\<close>

definition ex_config :: Knex_Config where
  "ex_config = \<lparr>database = ''main'', migrations = [''1_users'', ''2_tenants''], settings = ''pg''\<rparr>"

definition ex_env :: environment where
  "ex_env =
     \<lparr>next_handle = 0, destroyed = [],
      databases = [(''main'', \<lparr>ledger = [''1_users'', ''2_tenants''], Tenants = Some []\<rparr>)],
      up_faults = [], tenants_units = [''2_tenants''], insert_fault = None,
      directories = [(''models'', [''user.model.ts'', ''tenant.model.ts'']),
                     (''models/../../knex/seeds'', [])],
      modules = [(''models/user.model.ts'', [(''User'', ModelClass True)]),
                 (''models/tenant.model.ts'', [(''Tenant'', ModelClass False)])],
      classes = [], console = []\<rparr>"

text \<open>\<^verbatim>\<open>const multi = new MultiTenantKnex(config, modelsPath); await multi.buildMainORM();\<close>\<close>

definition ex_new :: state where
  "ex_new = constructor1 ex_config ''models'' ex_env"

definition ex_state :: state where
  "ex_state = snd (buildMainORM ex_new)"

text \<open>
  A database \<open>db\<close> with nothing applied, three units \<open>A\<close>, \<open>B\<close>, \<open>C\<close>, and one unit
  whose \<^verbatim>\<open>up\<close> throws \<^verbatim>\<open>new Error("boom")\<close>.
\<close>

definition mig_config :: Knex_Config where
  "mig_config = \<lparr>database = ''db'', migrations = [''A'', ''B'', ''C''], settings = ''pg''\<rparr>"

definition mig_state :: "string \<Rightarrow> state" where
  "mig_state failing =
     constructor1 mig_config ''models''
       (ex_env\<lparr>databases := [(''db'', \<lparr>ledger = [], Tenants = None\<rparr>)],
               up_faults := [((''db'', failing), new_Error ''boom'')]\<rparr>)"




section \<open>Basic facts\<close>

lemma js_get_Own [simp]: "map_of obj key = Some v \<Longrightarrow> js_get obj key = Own v"
  by (simp add: js_get_def)

lemma js_get_Own_iff: "js_get obj key = Own v \<longleftrightarrow> map_of obj key = Some v"
  by (simp add: js_get_def split: option.splits)

lemma js_get_Undefined_iff:
  "js_get obj key = Undefined \<longleftrightarrow> map_of obj key = None \<and> key \<notin> set Object_prototype"
  by (simp add: js_get_def split: option.splits)

lemma js_get_Inherited_iff:
  "js_get obj key = Inherited k \<longleftrightarrow> map_of obj key = None \<and> key \<in> set Object_prototype \<and> k = key"
  by (auto simp: js_get_def split: option.splits)

lemma truthy_js_get:
  "truthy (js_get obj key) \<longleftrightarrow> map_of obj key \<noteq> None \<or> key \<in> set Object_prototype"
  by (auto simp: js_get_def split: option.splits)


section \<open>Connection registry: replacing a registered handle\<close>



lemma connect_cong:
  "destroyed s' = destroyed s \<Longrightarrow> databases s' = databases s \<Longrightarrow> connect c s' = connect c s"
  by (simp add: connect_def)

section \<open>Nothing pending\<close>

text \<open>
  C8. When the ledger of the connection's database holds every configured unit,
  \<^verbatim>\<open>_initializeMigrations\<close> returns \<^verbatim>\<open>null\<close> (its empty plan) and no error; the callers'
  \<^verbatim>\<open>if (migrate) await migrate()\<close> then does nothing, so planning and applying leave every
  database (ledger and schema) as it was, only two lines are logged, and planning again
  gives the empty plan again.
\<close>

theorem no_pending_is_noop:
  assumes conn: "connect connection s = Inr d"
    and none: "pending_units connection d = []"
  shows "initializeMigrations connection s =
           (Inr None, s\<lparr>console := console s @
               [Console_log ''pendingMigrations v1.1.0'',
                Console_log ''No new migrations to run. Migrations are already up to date.'']\<rparr>) \<and>
         (\<exists>s'. await (initializeMigrations connection) call_if_present s = (Inr (), s') \<and>
               databases s' = databases s \<and>
               fst (initializeMigrations connection s') = Inr None)"
proof -
  let ?s' = "s\<lparr>console := console s @
               [Console_log ''pendingMigrations v1.1.0'',
                Console_log ''No new migrations to run. Migrations are already up to date.'']\<rparr>"
  have plan: "initializeMigrations connection s = (Inr None, ?s')"
    using conn none
    by (simp add: initializeMigrations_def try_catch_def await_def migrate_list_def
        console_log_def return_def)
  have conn': "connect connection ?s' = Inr d"
    using conn connect_cong [of ?s' s connection] by simp
  have again: "fst (initializeMigrations connection ?s') = Inr None"
    using conn' none
    by (simp add: initializeMigrations_def try_catch_def await_def migrate_list_def
        console_log_def return_def)
  have "await (initializeMigrations connection) call_if_present s = (Inr (), ?s')"
    using plan by (simp add: await_def call_if_present_def return_def)
  with plan again show ?thesis by simp
qed

theorem no_pending_is_noop_witness:
  "connect (systemKnex ex_state) ex_state =
     Inr \<lparr>ledger = [''1_users'', ''2_tenants''], Tenants = Some []\<rparr> \<and>
   pending_units (systemKnex ex_state) \<lparr>ledger = [''1_users'', ''2_tenants''], Tenants = Some []\<rparr> = [] \<and>
   fst (initializeMigrations (systemKnex ex_state) ex_state) = Inr None \<and>
   (\<exists>s'. await (initializeMigrations (systemKnex ex_state)) call_if_present ex_state = (Inr (), s') \<and>
         databases s' = databases ex_state)"
proof -
  have conn: "connect (systemKnex ex_state) ex_state =
      Inr \<lparr>ledger = [''1_users'', ''2_tenants''], Tenants = Some []\<rparr>"
    by code_simp
  have none: "pending_units (systemKnex ex_state)
      \<lparr>ledger = [''1_users'', ''2_tenants''], Tenants = Some []\<rparr> = []"
    by code_simp
  from no_pending_is_noop [OF conn none] conn none show ?thesis
    by auto
qed

section \<open>The active context after start-up\<close>

text \<open>
  C9. The constructor stores in \<^verbatim>\<open>currentORM\<close> the empty object that \<^verbatim>\<open>mainORM\<close> holds
  at that moment; \<^verbatim>\<open>buildMainORM\<close> then assigns a new object to \<^verbatim>\<open>mainORM\<close> and leaves
  \<^verbatim>\<open>currentORM\<close> alone. In the concrete installation, after construction and
  \<^verbatim>\<open>buildMainORM\<close>, the system binding holds the two models and
  \<^verbatim>\<open>getCurrentORM\<close> still returns the empty object.
\<close>

theorem buildMainORM_leaves_currentORM_empty:
  "fst (getCurrentORM ex_state) = Inr (Own []) \<and>
   mainORM ex_state = [(''User'', (''models/user.model.ts'', ''User'')),
                       (''Tenant'', (''models/tenant.model.ts'', ''Tenant''))] \<and>
   fst (getCurrentORM ex_state) \<noteq> Inr (Own (mainORM ex_state))"
  by code_simp

section \<open>Switching to a tenant\<close>

text \<open>
  C6. The guard of \<^verbatim>\<open>setCurrentTenantConnection\<close> reads \<^verbatim>\<open>this.tenantORMs[subdomain]\<close>
  from a plain object. For the tenant id \<^verbatim>\<open>constructor\<close>, which has no binding, the read
  yields the member inherited from \<^verbatim>\<open>Object.prototype\<close>, the guard lets the call
  through, and \<^verbatim>\<open>_createTenantConnection\<close> fails on \<^verbatim>\<open>.destroy()\<close>: the caller gets a
  TypeError, not the error that names the unknown tenant.
\<close>

theorem setCurrentTenantConnection_inherited_key:
  "map_of (tenantORMs ex_state) ''constructor'' = None \<and>
   setCurrentTenantConnection ''constructor'' ex_state =
     (Inl (TypeError ''this.tenantConnections[subdomain].destroy is not a function''), ex_state) \<and>
   fst (setCurrentTenantConnection ''constructor'' ex_state) \<noteq>
     Inl (new_Error (''No tenant with subdomain '' @ ''constructor''))"
  by code_simp

section \<open>Applying a plan\<close>

lemma migrate_up_clean:
  assumes "handle_id c \<notin> set (destroyed s)"
    and "map_of (databases s) (database (config c)) = Some d"
    and "f \<in> set (migrations (config c))" and "f \<notin> set (ledger d)" and "f \<noteq> []"
    and "unit_fault s c f = None"
  shows "migrate_up c (js_or (Some f) None) s =
           (Inr (), s\<lparr>databases := AList.update (database (config c))
              (d\<lparr>ledger := ledger d @ [f],
                 Tenants := (if f \<in> set (tenants_units s) \<and> Tenants d = None then Some [] else Tenants d)\<rparr>)
              (databases s)\<rparr>)"
  using assms
  by (simp add: migrate_up_def connect_def js_or_def select_unit_def pending_units_def
      apply_unit_def unit_fault_def)

lemma migrate_up_fault:
  assumes "handle_id c \<notin> set (destroyed s)"
    and "map_of (databases s) (database (config c)) = Some d"
    and "f \<in> set (migrations (config c))" and "f \<notin> set (ledger d)" and "f \<noteq> []"
    and "unit_fault s c f = Some e"
  shows "migrate_up c (js_or (Some f) None) s = (Inl e, s)"
  using assms
  by (simp add: migrate_up_def connect_def js_or_def select_unit_def pending_units_def
      apply_unit_def unit_fault_def)

lemma run_migrations_names:
  assumes "handle_id c \<notin> set (destroyed s)"
    and "map_of (databases s) (database (config c)) = Some d"
    and "distinct ns" and "set ns \<subseteq> set (migrations (config c))"
    and "set ns \<inter> set (ledger d) = {}" and "[] \<notin> set ns"
  shows "\<exists>s' d'. run_migrations c (map (\<lambda>f. \<lparr>file' = Some f, name' = None\<rparr>) ns) s =
            (first_fault s c ns, s') \<and>
          s' = s\<lparr>databases := databases s'\<rparr> \<and>
          map_of (databases s') (database (config c)) = Some d' \<and>
          (\<forall>n. n \<noteq> database (config c) \<longrightarrow> map_of (databases s') n = map_of (databases s) n) \<and>
          ledger d' = ledger d @ takeWhile (\<lambda>f. unit_fault s c f = None) ns"
  using assms
proof (induction ns arbitrary: s d)
  case Nil
  then show ?case by (simp add: first_fault_def)
next
  case (Cons f ns)
  show ?case
  proof (cases "unit_fault s c f")
    case (Some e)
    have "migrate_up c (js_or (Some f) None) s = (Inl e, s)"
      using Cons.prems Some by (intro migrate_up_fault) auto
    with Some Cons.prems(2) show ?thesis
      by (simp add: first_fault_def)
  next
    case None
    define d1 where "d1 = d\<lparr>ledger := ledger d @ [f],
        Tenants := (if f \<in> set (tenants_units s) \<and> Tenants d = None then Some [] else Tenants d)\<rparr>"
    define s1 where "s1 = s\<lparr>databases := AList.update (database (config c)) d1 (databases s)\<rparr>"
    have step: "migrate_up c (js_or (Some f) None) s = (Inr (), s1)"
      unfolding s1_def d1_def using Cons.prems None by (intro migrate_up_clean) auto
    have p1: "handle_id c \<notin> set (destroyed s1)"
      using Cons.prems(1) by (simp add: s1_def)
    have p2: "map_of (databases s1) (database (config c)) = Some d1"
      by (simp add: s1_def update_conv')
    have p5: "set ns \<inter> set (ledger d1) = {}"
      using Cons.prems(3,5) by (auto simp: d1_def)
    have faults: "unit_fault s1 c = unit_fault s c"
      by (auto simp: unit_fault_def s1_def)
    from Cons.IH [OF p1 p2 _ _ p5] Cons.prems
    obtain s' d' where run: "run_migrations c (map (\<lambda>f. \<lparr>file' = Some f, name' = None\<rparr>) ns) s1 =
            (first_fault s1 c ns, s')"
      and fr: "s' = s1\<lparr>databases := databases s'\<rparr>"
      and db: "map_of (databases s') (database (config c)) = Some d'"
      and others: "\<forall>n. n \<noteq> database (config c) \<longrightarrow> map_of (databases s') n = map_of (databases s1) n"
      and led: "ledger d' = ledger d1 @ takeWhile (\<lambda>f. unit_fault s1 c f = None) ns"
      by auto
    have oc: "first_fault s1 c ns = first_fault s c (f # ns)"
      unfolding first_fault_def faults using None by simp
    have "run_migrations c (map (\<lambda>f. \<lparr>file' = Some f, name' = None\<rparr>) (f # ns)) s = (first_fault s c (f # ns), s')"
      using step run oc by simp
    moreover have "s' = s\<lparr>databases := databases s'\<rparr>"
      using fr by (simp add: s1_def)
    moreover have "\<forall>n. n \<noteq> database (config c) \<longrightarrow> map_of (databases s') n = map_of (databases s) n"
      using others by (simp add: s1_def update_conv')
    moreover have "ledger d' = ledger d @ takeWhile (\<lambda>f. unit_fault s c f = None) (f # ns)"
      using led None by (simp add: d1_def faults)
    ultimately show ?thesis using db by blast
  qed
qed


lemma plan_then_apply:
  assumes conn: "connect connection s = Inr d"
    and units: "distinct (migrations (config connection))" "[] \<notin> set (migrations (config connection))"
  shows "\<exists>s' d'. await (initializeMigrations connection) call_if_present s =
            (first_fault s connection (pending_units connection d), s') \<and>
          destroyed s' = destroyed s \<and>
          map_of (databases s') (database (config connection)) = Some d' \<and>
          (\<forall>n. n \<noteq> database (config connection) \<longrightarrow> map_of (databases s') n = map_of (databases s) n) \<and>
          ledger d' = ledger d @
            takeWhile (\<lambda>f. unit_fault s connection f = None) (pending_units connection d)"
proof (cases "pending_units connection d = []")
  case True
  let ?s' = "s\<lparr>console := console s @
               [Console_log ''pendingMigrations v1.1.0'',
                Console_log ''No new migrations to run. Migrations are already up to date.'']\<rparr>"
  have "await (initializeMigrations connection) call_if_present s = (Inr (), ?s')"
    using conn True
    by (simp add: initializeMigrations_def try_catch_def await_def migrate_list_def
        console_log_def return_def call_if_present_def)
  moreover have "map_of (databases s) (database (config connection)) = Some d"
    using conn by (simp add: connect_def split: if_splits option.splits)
  ultimately show ?thesis using True
    by (simp add: first_fault_def)
next
  case False
  let ?s1 = "s\<lparr>console := console s @ [Console_log ''pendingMigrations v1.1.0'']\<rparr>"
  let ?plan = "map (\<lambda>f. \<lparr>file' = Some f, name' = None\<rparr>) (pending_units connection d)"
  have plan: "initializeMigrations connection s = (Inr (Some (connection, ?plan)), ?s1)"
    using conn False
    by (simp add: initializeMigrations_def try_catch_def await_def migrate_list_def
        console_log_def return_def)
  have live: "handle_id connection \<notin> set (destroyed ?s1)"
    and db: "map_of (databases ?s1) (database (config connection)) = Some d"
    using conn by (simp_all add: connect_def split: if_splits option.splits)
  have "distinct (pending_units connection d)"
    and "set (pending_units connection d) \<subseteq> set (migrations (config connection))"
    and "set (pending_units connection d) \<inter> set (ledger d) = {}"
    and "[] \<notin> set (pending_units connection d)"
    using units by (auto simp: pending_units_def)
  from run_migrations_names [OF live db this]
  obtain s' d' where run: "run_migrations connection ?plan ?s1 =
        (first_fault ?s1 connection (pending_units connection d), s')"
    and fr: "s' = ?s1\<lparr>databases := databases s'\<rparr>"
    and db': "map_of (databases s') (database (config connection)) = Some d'"
    and others: "\<forall>n. n \<noteq> database (config connection) \<longrightarrow>
          map_of (databases s') n = map_of (databases ?s1) n"
    and led: "ledger d' = ledger d @
          takeWhile (\<lambda>f. unit_fault ?s1 connection f = None) (pending_units connection d)"
    by blast
  have faults: "unit_fault ?s1 connection = unit_fault s connection"
    by (auto simp: unit_fault_def)
  have ff: "first_fault ?s1 connection = first_fault s connection"
    unfolding first_fault_def faults ..
  have "await (initializeMigrations connection) call_if_present s =
      (first_fault s connection (pending_units connection d), s')"
    using plan run by (simp add: await_def call_if_present_def call_migration_def ff)
  moreover have "destroyed s' = destroyed s"
    by (subst fr) simp
  moreover have "ledger d' = ledger d @
      takeWhile (\<lambda>f. unit_fault s connection f = None) (pending_units connection d)"
    using led unfolding faults .
  ultimately show ?thesis
    using db' others by auto
qed

text \<open>
  C3 (as amended). Planning and applying on a connection runs the pending units in the
  order of the driver's listing (ascending for its file source), and each success is in
  the applied-ledger before the next unit starts. With no failing unit all of them end up
  in the ledger, in that order. When unit \<open>b\<close> is the first to fail, the units listed
  before it are appended to the ledger, \<open>b\<close> and the units after it are not, and the
  caller receives the very value that \<open>b\<close>'s \<^verbatim>\<open>up\<close> threw: for pending \<open>[A, B, C]\<close>
  with \<open>B\<close> failing on an empty ledger, the ledger is exactly \<open>[A]\<close>. The code passes the
  driver's error through and attaches no unit identifier to it.
\<close>

theorem migrations_in_order_until_failure:
  assumes conn: "connect connection s = Inr d"
    and units: "distinct (migrations (config connection))" "[] \<notin> set (migrations (config connection))"
  shows "((\<forall>f \<in> set (pending_units connection d). unit_fault s connection f = None) \<longrightarrow>
            (\<exists>s' d'. await (initializeMigrations connection) call_if_present s = (Inr (), s') \<and>
               connect connection s' = Inr d' \<and>
               ledger d' = ledger d @ pending_units connection d)) \<and>
         (\<forall>as b cs e.
            pending_units connection d = as @ b # cs \<and>
            (\<forall>a \<in> set as. unit_fault s connection a = None) \<and>
            unit_fault s connection b = Some e \<longrightarrow>
            (\<exists>s' d'. await (initializeMigrations connection) call_if_present s = (Inl e, s') \<and>
               connect connection s' = Inr d' \<and>
               ledger d' = ledger d @ as))"
proof -
  from plan_then_apply [OF conn units]
  obtain s' d' where run: "await (initializeMigrations connection) call_if_present s =
            (first_fault s connection (pending_units connection d), s')"
    and dead: "destroyed s' = destroyed s"
    and db': "map_of (databases s') (database (config connection)) = Some d'"
    and led: "ledger d' = ledger d @
            takeWhile (\<lambda>f. unit_fault s connection f = None) (pending_units connection d)"
    by blast
  have conn': "connect connection s' = Inr d'"
    using conn dead db' by (simp add: connect_def split: if_splits)
  show ?thesis
  proof (intro conjI impI allI)
    assume "\<forall>f \<in> set (pending_units connection d). unit_fault s connection f = None"
    then have "takeWhile (\<lambda>f. unit_fault s connection f = None) (pending_units connection d) =
          pending_units connection d"
      and "dropWhile (\<lambda>f. unit_fault s connection f = None) (pending_units connection d) = []"
      by (simp_all add: takeWhile_eq_all_conv)
    with run conn' led
    show "\<exists>s' d'. await (initializeMigrations connection) call_if_present s = (Inr (), s') \<and>
               connect connection s' = Inr d' \<and>
               ledger d' = ledger d @ pending_units connection d"
      by (simp add: first_fault_def)
  next
    fix as b cs e
    assume h: "pending_units connection d = as @ b # cs \<and>
            (\<forall>a \<in> set as. unit_fault s connection a = None) \<and>
            unit_fault s connection b = Some e"
    then have "takeWhile (\<lambda>f. unit_fault s connection f = None) (pending_units connection d) = as"
      and "dropWhile (\<lambda>f. unit_fault s connection f = None) (pending_units connection d) = b # cs"
      by (simp_all add: takeWhile_append2 dropWhile_append2)
    with run conn' led h
    show "\<exists>s' d'. await (initializeMigrations connection) call_if_present s = (Inl e, s') \<and>
               connect connection s' = Inr d' \<and>
               ledger d' = ledger d @ as"
      by (simp add: first_fault_def)
  qed
qed

theorem migrations_in_order_until_failure_witness:
  "pending_units (systemKnex (mig_state ''B'')) \<lparr>ledger = [], Tenants = None\<rparr> = [''A''] @ ''B'' # [''C''] \<and>
   unit_fault (mig_state ''B'') (systemKnex (mig_state ''B'')) ''A'' = None \<and>
   unit_fault (mig_state ''B'') (systemKnex (mig_state ''B'')) ''B'' = Some (new_Error ''boom'') \<and>
   (\<exists>s' d'. await (initializeMigrations (systemKnex (mig_state ''B''))) call_if_present (mig_state ''B'') =
        (Inl (new_Error ''boom''), s') \<and>
      connect (systemKnex (mig_state ''B'')) s' = Inr d' \<and> ledger d' = [''A''])"
proof -
  let ?s = "mig_state ''B''"
  let ?c = "systemKnex ?s"
  have conn: "connect ?c ?s = Inr \<lparr>ledger = [], Tenants = None\<rparr>"
    by code_simp
  have u1: "distinct (migrations (config ?c))" by code_simp
  have u2: "[] \<notin> set (migrations (config ?c))" by code_simp
  have p: "pending_units ?c \<lparr>ledger = [], Tenants = None\<rparr> = [''A''] @ ''B'' # [''C'']"
    by code_simp
  have a: "unit_fault ?s ?c ''A'' = None" by code_simp
  have b: "unit_fault ?s ?c ''B'' = Some (new_Error ''boom'')" by code_simp
  from migrations_in_order_until_failure [OF conn u1 u2] p a b
  have "\<exists>s' d'. await (initializeMigrations ?c) call_if_present ?s = (Inl (new_Error ''boom''), s') \<and>
      connect ?c s' = Inr d' \<and> ledger d' = ledger \<lparr>ledger = [], Tenants = None\<rparr> @ [''A'']"
    by (elim conjE allE [of _ "[''A'']"] allE [of _ "''B''"] allE [of _ "[''C'']"]
        allE [of _ "new_Error ''boom''"]) simp
  with p a b show ?thesis by simp
qed

text \<open>
  The claim as stated also wants the surfaced error to identify the failing unit. With
  \<open>B\<close> failing the caller receives \<^verbatim>\<open>Error("boom")\<close>, and with \<open>A\<close> failing instead
  the caller receives the same value: nothing in it names a unit.
\<close>

theorem surfaced_error_names_no_unit:
  "fst (await (initializeMigrations (systemKnex (mig_state ''B''))) call_if_present (mig_state ''B'')) =
     Inl (Thrown True None ''boom'') \<and>
   fst (await (initializeMigrations (systemKnex (mig_state ''A''))) call_if_present (mig_state ''A'')) =
     Inl (Thrown True None ''boom'') \<and>
   unit_fault (mig_state ''B'') (systemKnex (mig_state ''B'')) ''A'' = None \<and>
   unit_fault (mig_state ''A'') (systemKnex (mig_state ''A'')) ''A'' \<noteq> None"
  by code_simp

section \<open>Which methods leave a property of the state alone\<close>

lemma preservesD: "preserves P m \<Longrightarrow> P s \<Longrightarrow> P (snd (m s))"
  by (simp add: preserves_def)

lemma preservesI: "(\<And>s. P s \<Longrightarrow> P (snd (m s))) \<Longrightarrow> preserves P m"
  by (simp add: preserves_def)

lemma preserves_return: "preserves P (return x)"
  by (simp add: preserves_def return_def)

lemma preserves_throw: "preserves P (throw e)"
  by (simp add: preserves_def throw_def)

lemma preserves_await:
  "preserves P m \<Longrightarrow> (\<And>x. preserves P (k x)) \<Longrightarrow> preserves P (await m k)"
  by (auto simp: preserves_def await_def split: prod.splits sum.splits)

lemma preserves_try_catch:
  "preserves P m \<Longrightarrow> (\<And>e. preserves P (h e)) \<Longrightarrow> preserves P (try_catch m h)"
  by (auto simp: preserves_def try_catch_def split: prod.splits sum.splits)

lemma preserves_unchanged: "(\<And>s. snd (m s) = s) \<Longrightarrow> preserves P m"
  by (simp add: preserves_def)

lemma preserves_if:
  "(c \<Longrightarrow> preserves P a) \<Longrightarrow> (\<not> c \<Longrightarrow> preserves P b) \<Longrightarrow> preserves P (if c then a else b)"
  by simp

lemma preserves_console_log: "ignores_console P \<Longrightarrow> preserves P (console_log msg)"
  by (simp add: preserves_def ignores_console_def console_log_def)

lemma preserves_console_warn: "ignores_console P \<Longrightarrow> preserves P (console_warn msg e)"
  by (simp add: preserves_def ignores_console_def console_warn_def)

lemma preserves_console_error: "ignores_console P \<Longrightarrow> preserves P (console_error msg e)"
  by (simp add: preserves_def ignores_console_def console_error_def)

lemma migrate_list_unchanged: "snd (migrate_list c s) = s"
  by (simp add: migrate_list_def split: sum.splits)

lemma readdir_unchanged: "snd (readdir d s) = s"
  by (simp add: readdir_def split: option.splits)

lemma import_module_unchanged: "snd (import_module p s) = s"
  by (simp add: import_module_def split: option.splits)

lemma getDbTenants_unchanged: "snd (getDbTenants s) = s"
  by (simp add: getDbTenants_def split: sum.splits option.splits)

lemma preserves_migrate_list: "preserves P (migrate_list c)"
  by (rule preserves_unchanged) (rule migrate_list_unchanged)

lemma preserves_readdir: "preserves P (readdir d)"
  by (rule preserves_unchanged) (rule readdir_unchanged)

lemma preserves_import_module: "preserves P (import_module p)"
  by (rule preserves_unchanged) (rule import_module_unchanged)

lemma preserves_getDbTenants: "preserves P getDbTenants"
  by (rule preserves_unchanged) (rule getDbTenants_unchanged)

lemma preserves_migrate_up: "ignores_databases P \<Longrightarrow> preserves P (migrate_up c nm)"
  by (simp add: preserves_def ignores_databases_def migrate_up_def apply_unit_def
      split: sum.splits option.splits)

lemma preserves_run_migrations: "ignores_databases P \<Longrightarrow> preserves P (run_migrations c ms)"
proof (induction ms)
  case Nil
  then show ?case by (simp add: preserves_def)
next
  case (Cons m ms)
  have "run_migrations c (m # ms) = await (migrate_up c (js_or (file' m) (name' m))) (\<lambda>_. run_migrations c ms)"
    by (auto simp: await_def split: prod.splits sum.splits)
  with Cons show ?case
    by (simp add: preserves_await preserves_migrate_up)
qed

lemma preserves_call_if_present: "ignores_databases P \<Longrightarrow> preserves P (call_if_present f)"
  by (cases f) (simp_all add: call_if_present_def call_migration_def preserves_return
      preserves_run_migrations)

lemma preserves_initializeMigrations: "ignores_console P \<Longrightarrow> preserves P (initializeMigrations c)"
  unfolding initializeMigrations_def
  by (intro preserves_try_catch preserves_await preserves_console_log preserves_console_error
      preserves_throw preserves_migrate_list preserves_if preserves_return)

lemma collect_seeders_unchanged: "snd (collect_seeders d fs acc s) = s"
  by (induction fs arbitrary: acc)
     (auto simp: import_module_def split: prod.splits sum.splits option.splits js_export.splits)

lemma run_seeders_unchanged: "snd (run_seeders fs s) = s"
  by (induction fs) (auto split: js_export.splits option.splits)

lemma preserves_initializeSeeders: "ignores_console P \<Longrightarrow> preserves P (initializeSeeders c g)"
  unfolding initializeSeeders_def
  by (intro preserves_try_catch preserves_await preserves_console_error preserves_throw
      preserves_readdir preserves_unchanged [of "collect_seeders _ _ _"] collect_seeders_unchanged)

lemma getModelFiles_unchanged: "snd (getModelFiles d s) = s"
  by (simp add: getModelFiles_def await_def return_def readdir_def split: option.splits)

lemma preserves_bind_exports: "ignores_classes P \<Longrightarrow> preserves P (bind_exports c p xs orm)"
proof (induction xs arbitrary: orm)
  case Nil
  then show ?case by (simp add: preserves_def)
next
  case (Cons x xs)
  obtain n ex where x: "x = (n, ex)" by (cases x)
  show ?case
    unfolding preserves_def
  proof (intro allI impI)
    fix s assume "P s"
    then have "P (set_knex (p, n) c s)"
      using Cons.prems by (simp add: set_knex_def ignores_classes_def)
    then show "P (snd (bind_exports c p (x # xs) orm s))"
      using \<open>P s\<close> preservesD [OF Cons.IH [OF Cons.prems]]
      by (simp add: x split: js_export.splits)
  qed
qed

lemma preserves_import_files: "ignores_classes P \<Longrightarrow> preserves P (import_files c p fs orm)"
proof (induction fs arbitrary: orm)
  case Nil
  then show ?case by (simp add: preserves_def)
next
  case (Cons f fs)
  have one: "preserves P (await (import_module (path_join p f))
             (\<lambda>modelModule. bind_exports c (path_join p f) modelModule orm))"
    using Cons.prems
    by (intro preserves_await preserves_bind_exports preserves_import_module)
  show ?case
    unfolding preserves_def
  proof (intro allI impI)
    fix s assume "P s"
    from preservesD [OF one this] preservesD [OF Cons.IH [OF Cons.prems]]
    show "P (snd (import_files c p (f # fs) orm s))"
      by (auto split: prod.splits sum.splits)
  qed
qed

lemma associate_all_P: "ignores_classes P \<Longrightarrow> P s \<Longrightarrow> P (associate_all orm ns s)"
  by (induction ns arbitrary: s)
     (auto simp: set_associated_def ignores_classes_def split: option.splits)

lemma preserves_importModels: "ignores_classes P \<Longrightarrow> preserves P (importModels c p)"
  unfolding importModels_def
  by (intro preserves_await preserves_import_files preserves_unchanged [of "getModelFiles _"]
      getModelFiles_unchanged)
     (simp_all add: preserves_def associate_all_P)


lemma preserves_insert_row: "ignores_databases P \<Longrightarrow> preserves P (insert_row c row)"
  by (simp add: preserves_def ignores_databases_def insert_row_def Let_def
      split: sum.splits option.splits)

lemma preserves_Tenant_insert: "ignores_databases P \<Longrightarrow> preserves P (Tenant_insert row)"
  unfolding preserves_def Tenant_insert_def
  by (auto split: js_read.splits option.splits dest: preservesD [OF preserves_insert_row])

lemma preserves_create_database: "ignores_databases P \<Longrightarrow> preserves P (create_database n)"
  by (simp add: preserves_def ignores_databases_def create_database_def
      split: sum.splits option.splits)


lemma preserves_createTenant:
  assumes "ignores_console P" "ignores_databases P" "\<And>sub. preserves P (createTenantConnection sub)" "ignores_classes P"
    "ignores_bindings P"
  shows "preserves P (createTenant n)"
proof -
  have last: "preserves P (\<lambda>s'. (Inr (t :: iTenant), s'\<lparr>tenantORMs := AList.update k orm (tenantORMs s')\<rparr>))"
    for t k orm
    using assms(5) by (simp add: preserves_def ignores_bindings_def)
  have tail: "preserves P (\<lambda>s.
        (let pathSeeds = path_join (tenantModelsPath s) (tenantSeedRoute s) in
         await (initializeMigrations tenantConnection) (\<lambda>migrationTenant.
         await (call_if_present migrationTenant) (\<lambda>_.
         await (initializeSeeders tenantConnection pathSeeds) (\<lambda>seedersTenant.
         await (run_seeders seedersTenant) (\<lambda>_.
         await (importModels tenantConnection (tenantModelsPath s)) (\<lambda>orm s'.
           (Inr tenant, s'\<lparr>tenantORMs := AList.update k orm (tenantORMs s')\<rparr>))))))) s)"
    for tenantConnection k and tenant :: iTenant
  proof (rule preservesI)
    fix s assume "P s"
    have "preserves P
         (await (initializeMigrations tenantConnection) (\<lambda>migrationTenant.
         await (call_if_present migrationTenant) (\<lambda>_.
         await (initializeSeeders tenantConnection (path_join (tenantModelsPath s) (tenantSeedRoute s))) (\<lambda>seedersTenant.
         await (run_seeders seedersTenant) (\<lambda>_.
         await (importModels tenantConnection (tenantModelsPath s)) (\<lambda>orm s'.
           (Inr tenant, s'\<lparr>tenantORMs := AList.update k orm (tenantORMs s')\<rparr>)))))))"
      using assms
      by (intro preserves_await preserves_initializeMigrations preserves_call_if_present
          preserves_initializeSeeders preserves_importModels last
          preserves_unchanged [of "run_seeders _"] run_seeders_unchanged)
    from preservesD [OF this \<open>P s\<close>]
    show "P (snd ((let pathSeeds = path_join (tenantModelsPath s) (tenantSeedRoute s) in
         await (initializeMigrations tenantConnection) (\<lambda>migrationTenant.
         await (call_if_present migrationTenant) (\<lambda>_.
         await (initializeSeeders tenantConnection pathSeeds) (\<lambda>seedersTenant.
         await (run_seeders seedersTenant) (\<lambda>_.
         await (importModels tenantConnection (tenantModelsPath s)) (\<lambda>orm s'.
           (Inr tenant, s'\<lparr>tenantORMs := AList.update k orm (tenantORMs s')\<rparr>))))))) s))"
      by (simp add: Let_def)
  qed
  show ?thesis
    unfolding createTenant_def Let_def
    using assms(1,2,4,5)
    by (intro preserves_await preserves_try_catch preserves_Tenant_insert
        preserves_console_error preserves_if preserves_throw preserves_create_database
        assms(3) tail [unfolded Let_def])
qed

lemma preserves_migrateMainDb:
  assumes "ignores_console P" "ignores_databases P"
  shows "preserves P migrateMainDb"
proof (rule preservesI)
  fix s assume "P s"
  have "preserves P (await (initializeMigrations (tenantKnex s)) (\<lambda>migrateMainDb'.
       try_catch (call_if_present migrateMainDb')
         (\<lambda>error.
            await (console_error
                     (if instanceof_Error error then ''Error initializing migrations:''
                      else ''Unexpected error initializing migrations:'') error)
              (\<lambda>_. throw error))))"
    using assms
    by (intro preserves_await preserves_try_catch preserves_initializeMigrations
        preserves_call_if_present preserves_console_error preserves_throw)
  from preservesD [OF this \<open>P s\<close>] show "P (snd (migrateMainDb s))"
    by (simp add: migrateMainDb_def)
qed

lemma preserves_plan_all:
  assumes "ignores_console P" "\<And>sub. preserves P (createTenantConnection sub)"
  shows "preserves P (plan_all ts)"
proof (induction ts)
  case Nil
  show ?case by (simp add: preserves_def)
next
  case (Cons t ts)
  have one: "preserves P (await (createTenantConnection (tenant_subdomain t)) initializeMigrations)"
    using assms(1) by (intro preserves_await assms(2) preserves_initializeMigrations)
  show ?case
  proof (rule preservesI)
    fix s assume "P s"
    from preservesD [OF one this] preservesD [OF Cons.IH]
    show "P (snd (plan_all (t # ts) s))"
      by (auto split: prod.splits sum.splits) (metis snd_conv)+
  qed
qed

lemma preserves_migrate_each:
  assumes "ignores_console P" "ignores_databases P"
  shows "preserves P (migrate_each fs)"
proof (induction fs)
  case Nil
  show ?case by (simp add: preserves_def)
next
  case (Cons f fs)
  show ?case
  proof (cases f)
    case None
    with Cons show ?thesis by (simp add: preserves_def)
  next
    case (Some g)
    have call: "preserves P (call_migration g)"
      using assms(2) by (simp add: call_migration_def preserves_run_migrations)
    have warn: "preserves P (console_warn ''Migration warning for tenant'' e)" for e
      using assms(1) by (rule preserves_console_warn)
    show ?thesis
    proof (rule preservesI)
      fix s assume "P s"
      from preservesD [OF call this] preservesD [OF warn] preservesD [OF Cons.IH]
      show "P (snd (migrate_each (f # fs) s))"
        by (auto simp: Some split: prod.splits sum.splits)
    qed
  qed
qed

lemma preserves_migrateAllTenants:
  assumes "ignores_console P" "ignores_databases P" "\<And>sub. preserves P (createTenantConnection sub)"
  shows "preserves P migrateAllTenants"
  unfolding migrateAllTenants_def
  using assms
  by (intro preserves_try_catch preserves_await preserves_getDbTenants preserves_plan_all
      preserves_migrate_each preserves_console_log preserves_console_error preserves_throw)

lemma preserves_seed_plan_all:
  assumes "ignores_console P" "\<And>sub. preserves P (createTenantConnection sub)"
  shows "preserves P (seed_plan_all p ts)"
proof (induction ts)
  case Nil
  show ?case by (simp add: preserves_def)
next
  case (Cons t ts)
  have one: "preserves P (await (createTenantConnection (tenant_subdomain t))
       (\<lambda>tenantConnection. initializeSeeders tenantConnection p))"
    using assms(1) by (intro preserves_await assms(2) preserves_initializeSeeders)
  show ?case
  proof (rule preservesI)
    fix s assume "P s"
    from preservesD [OF one this] preservesD [OF Cons.IH]
    show "P (snd (seed_plan_all p (t # ts) s))"
      by (auto split: prod.splits sum.splits) (metis snd_conv)+
  qed
qed

lemma preserves_seed_each:
  assumes "ignores_console P"
  shows "preserves P (seed_each fs)"
proof (induction fs)
  case Nil
  show ?case by (simp add: preserves_def)
next
  case (Cons f fs)
  have warn: "preserves P (console_warn ''Seed warning for tenant'' e)" for e
    using assms(1) by (rule preserves_console_warn)
  show ?case
  proof (rule preservesI)
    fix s assume "P s"
    from this preservesD [OF warn] preservesD [OF Cons.IH] run_seeders_unchanged [of f s]
    show "P (snd (seed_each (f # fs) s))"
      by (auto split: prod.splits sum.splits)
  qed
qed

lemma preserves_seedsAllTenants:
  assumes "ignores_console P" "\<And>sub. preserves P (createTenantConnection sub)"
  shows "preserves P seedsAllTenants"
proof -
  have body: "preserves P (\<lambda>s.
          (let pathSeeds = path_join (tenantModelsPath s) (tenantSeedRoute s) in
           await (seed_plan_all pathSeeds tenants) (\<lambda>seedsFunctions.
           await (seed_each seedsFunctions) (\<lambda>_.
           console_log ''All tenant seeds completed successfully.''))) s)" for tenants
  proof (rule preservesI)
    fix s assume "P s"
    have "preserves P (await (seed_plan_all (path_join (tenantModelsPath s) (tenantSeedRoute s)) tenants)
           (\<lambda>seedsFunctions. await (seed_each seedsFunctions) (\<lambda>_.
           console_log ''All tenant seeds completed successfully.'')))"
      using assms
      by (intro preserves_await preserves_seed_plan_all preserves_seed_each preserves_console_log)
    from preservesD [OF this \<open>P s\<close>]
    show "P (snd ((let pathSeeds = path_join (tenantModelsPath s) (tenantSeedRoute s) in
           await (seed_plan_all pathSeeds tenants) (\<lambda>seedsFunctions.
           await (seed_each seedsFunctions) (\<lambda>_.
           console_log ''All tenant seeds completed successfully.''))) s))"
      by (simp add: Let_def)
  qed
  show ?thesis
    unfolding seedsAllTenants_def
    using assms
    by (intro preserves_try_catch preserves_await preserves_getDbTenants body
        preserves_console_error preserves_throw)
qed

lemma preserves_migrate1:
  assumes "ignores_console P" "ignores_databases P" "\<And>sub. preserves P (createTenantConnection sub)"
  shows "preserves P migrate1"
  unfolding migrate1_def using assms
  by (intro preserves_await preserves_migrateMainDb preserves_migrateAllTenants
      preserves_seedsAllTenants)

lemma preserves_migrate2:
  assumes "ignores_console P" "ignores_databases P" "\<And>sub. preserves P (createTenantConnection sub)"
  shows "preserves P migrate2"
  unfolding migrate2_def using assms
  by (intro preserves_await preserves_migrateAllTenants preserves_seedsAllTenants)

lemma preserves_connect_each:
  assumes "\<And>sub. preserves P (createTenantConnection sub)"
  shows "preserves P (connect_each ts)"
proof (induction ts)
  case Nil
  show ?case by (simp add: preserves_def)
next
  case (Cons t ts)
  show ?case
  proof (rule preservesI)
    fix s assume "P s"
    from preservesD [OF assms [of "tenant_subdomain t"] this]
      preservesD [OF Cons.IH]
    show "P (snd (connect_each (t # ts) s))"
      by (auto split: prod.splits sum.splits)
  qed
qed

lemma preserves_buildTenantConnections:
  "(\<And>sub. preserves P (createTenantConnection sub)) \<Longrightarrow> preserves P buildTenantConnections"
  unfolding buildTenantConnections_def
  by (intro preserves_await preserves_getDbTenants preserves_connect_each)

lemma bind_each_P:
  assumes "ignores_classes P" "ignores_bindings P"
  shows "P s \<Longrightarrow> P (snd (bind_each cs s))"
proof (induction cs arbitrary: s)
  case Nil
  then show ?case by simp
next
  case (Cons x cs)
  obtain k c where x: "x = (k, c)" by (cases x)
  have upd: "P s' \<Longrightarrow> P (s'\<lparr>tenantORMs := v\<rparr>)" for s' v
    using assms(2) by (simp add: ignores_bindings_def)
  from preservesD [OF preserves_importModels [OF assms(1), of c "tenantModelsPath s"] Cons.prems]
  show ?case
    by (auto simp: x split: prod.splits sum.splits intro!: Cons.IH upd)
qed

lemma preserves_buildTenantORMs:
  assumes "\<And>sub. preserves P (createTenantConnection sub)" "ignores_classes P" "ignores_bindings P"
  shows "preserves P buildTenantORMs"
proof (rule preservesI)
  fix s assume "P s"
  have "P (snd (buildTenantConnections s))"
    using preservesD [OF preserves_buildTenantConnections [OF assms(1)] \<open>P s\<close>] .
  with \<open>P s\<close> show "P (snd (buildTenantORMs s))"
    by (auto simp: buildTenantORMs_def await_def split: prod.splits sum.splits
        intro!: bind_each_P [OF assms(2,3)])
qed

lemma preserves_buildMainORM:
  assumes "ignores_classes P" "ignores_mainORM P"
  shows "preserves P buildMainORM"
proof (rule preservesI)
  fix s assume "P s"
  have "preserves P (await (importModels (systemKnex s) (systemModelsPath s))
       (\<lambda>orm s'. (Inr (), s'\<lparr>mainORM := orm\<rparr>)))"
    using assms
    by (intro preserves_await preserves_importModels)
       (simp_all add: preserves_def ignores_mainORM_def)
  from preservesD [OF this \<open>P s\<close>] show "P (snd (buildMainORM s))"
    by (simp add: buildMainORM_def)
qed

section \<open>Invariants of the reachable states\<close>






lemma getCurrentORM_unchanged: "snd (getCurrentORM s) = s"
  by (simp add: getCurrentORM_def)


lemma in_set_updateD:
  "(k', h) \<in> set (AList.update k v al) \<Longrightarrow> h = v \<or> (k', h) \<in> set al"
  by (induction al) (auto split: if_splits)

lemma registry_ok_ignores:
  "ignores_console registry_ok" "ignores_classes registry_ok" "ignores_databases registry_ok"
  "ignores_bindings registry_ok" "ignores_mainORM registry_ok"
  by (simp_all add: ignores_console_def ignores_classes_def ignores_databases_def
      ignores_bindings_def ignores_mainORM_def registry_ok_def)

lemma registry_ok_createTenantConnection: "preserves registry_ok (createTenantConnection sub)"
proof (rule preservesI)
  fix s assume ok: "registry_ok s"
  show "registry_ok (snd (createTenantConnection sub s))"
  proof (cases "js_get (tenantConnections s) sub")
    case (Own old)
    then have "(sub, old) \<in> set (tenantConnections s)"
      by (simp add: js_get_Own_iff map_of_SomeD)
    then have "old \<in> snd ` set (tenantConnections s)" by force
    with ok have "handle_id old < next_handle s" unfolding registry_ok_def by blast
    with ok Own show ?thesis
      by (auto simp: registry_ok_def createTenantConnection_def knex_def destroy_def
          distinct_update dest!: in_set_updateD intro: less_SucI)
  next
    case (Inherited k)
    with ok show ?thesis by (simp add: createTenantConnection_def)
  next
    case Undefined
    with ok show ?thesis
      by (auto simp: registry_ok_def createTenantConnection_def knex_def
          distinct_update dest!: in_set_updateD intro: less_SucI)
  qed
qed

lemma registry_ok_context: "registry_ok (s\<lparr>currentORM := v\<rparr>) = registry_ok s"
  by (simp add: registry_ok_def)

lemma registry_ok_setCurrentORM: "preserves registry_ok (setCurrentORM sub)"
  by (simp add: preserves_def setCurrentORM_def registry_ok_def console_log_def)

lemma registry_ok_setCurrentTenantConnection:
  "preserves registry_ok (setCurrentTenantConnection sub)"
proof (rule preservesI)
  fix s assume P: "registry_ok s"
  have inner: "preserves registry_ok (\<lambda>s1. await (importModels c (tenantModelsPath s1)) (\<lambda>orm s2.
          (let s3 = s2\<lparr>tenantORMs := AList.update sub orm (tenantORMs s2)\<rparr>;
               s4 = s3\<lparr>currentORM := js_get (tenantORMs s3) sub\<rparr>
           in console_log ''currentORM'' s4)) s1)" for c
  proof (rule preservesI)
    fix s1 assume "registry_ok s1"
    have "preserves registry_ok (await (importModels c (tenantModelsPath s1)) (\<lambda>orm s2.
          (let s3 = s2\<lparr>tenantORMs := AList.update sub orm (tenantORMs s2)\<rparr>;
               s4 = s3\<lparr>currentORM := js_get (tenantORMs s3) sub\<rparr>
           in console_log ''currentORM'' s4)))"
      by (intro preserves_await preserves_importModels registry_ok_ignores)
         (simp add: preserves_def registry_ok_def console_log_def Let_def)
    from preservesD [OF this \<open>registry_ok s1\<close>]
    show "registry_ok (snd (await (importModels c (tenantModelsPath s1)) (\<lambda>orm s2.
          (let s3 = s2\<lparr>tenantORMs := AList.update sub orm (tenantORMs s2)\<rparr>;
               s4 = s3\<lparr>currentORM := js_get (tenantORMs s3) sub\<rparr>
           in console_log ''currentORM'' s4)) s1))" .
  qed
  have "preserves registry_ok (await (createTenantConnection sub) (\<lambda>tenantConnection s1.
        await (importModels tenantConnection (tenantModelsPath s1)) (\<lambda>orm s2.
          (let s3 = s2\<lparr>tenantORMs := AList.update sub orm (tenantORMs s2)\<rparr>;
               s4 = s3\<lparr>currentORM := js_get (tenantORMs s3) sub\<rparr>
           in console_log ''currentORM'' s4)) s1))"
    by (intro preserves_await registry_ok_createTenantConnection inner)
  from preservesD [OF this P] P
  show "registry_ok (snd (setCurrentTenantConnection sub s))"
    by (simp add: setCurrentTenantConnection_def)
qed

lemma registry_ok_setCurrentMainConnection: "preserves registry_ok setCurrentMainConnection"
proof (rule preservesI)
  fix s assume P: "registry_ok s"
  have "preserves registry_ok (await (importModels (systemKnex s) (systemModelsPath s))
       (\<lambda>orm s'. (Inr (), s'\<lparr>mainORM := orm, currentORM := Own orm\<rparr>)))"
    by (intro preserves_await preserves_importModels registry_ok_ignores)
       (simp add: preserves_def registry_ok_def)
  from preservesD [OF this P]
  show "registry_ok (snd (setCurrentMainConnection s))"
    by (simp add: setCurrentMainConnection_def)
qed

lemma reachable_registry_ok: "reachable s \<Longrightarrow> registry_ok s"
proof (induction rule: reachable.induct)
  case (new1 env knexConfig modelsPath)
  then show ?case
    by (auto simp: constructor1_def registry_ok_def knex_def intro: less_SucI)
next
  case (new2 env systemConfig tenantConfig systemPath tenantPath)
  then show ?case
    by (auto simp: constructor2_def registry_ok_def knex_def intro: less_SucI)
next
  case (world s dbs faults units fault dirs mods)
  then show ?case by (simp add: registry_ok_def)
next
  case (call_buildMainORM s)
  then show ?case
    by (intro preservesD [OF preserves_buildMainORM, where P = registry_ok] registry_ok_ignores)
next
  case (call_createTenant s subdomain)
  then show ?case
    by (intro preservesD [OF preserves_createTenant, where P = registry_ok] registry_ok_ignores
        registry_ok_createTenantConnection)
next
  case (call_migrate1 s)
  then show ?case
    by (intro preservesD [OF preserves_migrate1, where P = registry_ok] registry_ok_ignores
        registry_ok_createTenantConnection)
next
  case (call_migrate2 s)
  then show ?case
    by (intro preservesD [OF preserves_migrate2, where P = registry_ok] registry_ok_ignores
        registry_ok_createTenantConnection)
next
  case (call_migrateMainDb s)
  then show ?case
    by (intro preservesD [OF preserves_migrateMainDb, where P = registry_ok] registry_ok_ignores)
next
  case (call_migrateAllTenants s)
  then show ?case
    by (intro preservesD [OF preserves_migrateAllTenants, where P = registry_ok] registry_ok_ignores
        registry_ok_createTenantConnection)
next
  case (call_seedsAllTenants s)
  then show ?case
    by (intro preservesD [OF preserves_seedsAllTenants, where P = registry_ok] registry_ok_ignores
        registry_ok_createTenantConnection)
next
  case (call_getDbTenants s)
  then show ?case by (simp add: getDbTenants_unchanged)
next
  case (call_buildTenantConnections s)
  then show ?case
    by (intro preservesD [OF preserves_buildTenantConnections, where P = registry_ok]
        registry_ok_createTenantConnection)
next
  case (call_buildTenantORMs s)
  then show ?case
    by (intro preservesD [OF preserves_buildTenantORMs, where P = registry_ok] registry_ok_ignores
        registry_ok_createTenantConnection)
next
  case (call_setCurrentORM s subdomain)
  then show ?case by (intro preservesD [OF registry_ok_setCurrentORM])
next
  case (call_setCurrentTenantConnection s subdomain)
  then show ?case by (intro preservesD [OF registry_ok_setCurrentTenantConnection])
next
  case (call_setCurrentMainConnection s)
  then show ?case by (intro preservesD [OF registry_ok_setCurrentMainConnection])
next
  case (call_getCurrentORM s)
  then show ?case by (simp add: getCurrentORM_unchanged)
qed

section \<open>The active context is never empty\<close>




section \<open>Provisioning a tenant\<close>

lemma await_InrE:
  assumes "await m k s = (Inr y, s')"
  obtains x s1 where "m s = (Inr x, s1)" and "k x s1 = (Inr y, s')"
  using assms by (auto simp: await_def split: prod.splits sum.splits)
















section \<open>Provisioning failures\<close>














section \<open>What a binding refers to\<close>



lemma has_associate_set_knex [simp]: "has_associate (set_knex r c s) = has_associate s"
  by (simp add: has_associate_def set_knex_def fun_eq_iff)

lemma has_associate_set_associated [simp]: "has_associate (set_associated r orm s) = has_associate s"
  by (simp add: has_associate_def set_associated_def fun_eq_iff)










section \<open>Migrating the fleet\<close>
















section \<open>The context switches, case by case\<close>

text \<open>
  \<^verbatim>\<open>buildMainORM\<close> never writes \<^verbatim>\<open>currentORM\<close>, whether it returns or throws;
  \<^verbatim>\<open>setCurrentMainConnection\<close>, which differs from it by one assignment, makes the system
  binding the active context.
\<close>

lemma buildMainORM_keeps_currentORM: "currentORM (snd (buildMainORM s)) = currentORM s"
proof -
  have "preserves (\<lambda>t. currentORM t = currentORM s) buildMainORM"
    by (rule preserves_buildMainORM) (simp_all add: ignores_classes_def ignores_mainORM_def)
  then show ?thesis by (simp add: preserves_def)
qed

lemma setCurrentMainConnection_sets_currentORM:
  assumes "setCurrentMainConnection s = (Inr (), s')"
  shows "currentORM s' = Own (mainORM s')"
  using assms unfolding setCurrentMainConnection_def
  by (auto elim!: await_InrE)

text \<open>
  A tenant id that is neither a key of \<^verbatim>\<open>tenantORMs\<close> nor a member of
  \<^verbatim>\<open>Object.prototype\<close> is rejected by both switches with the error that names it, and
  nothing changes.
\<close>

lemma setCurrentTenantConnection_unknown:
  assumes "map_of (tenantORMs s) subdomain = None" and "subdomain \<notin> set Object_prototype"
  shows "setCurrentTenantConnection subdomain s =
           (Inl (new_Error (''No tenant with subdomain '' @ subdomain)), s)"
  using assms by (simp add: setCurrentTenantConnection_def js_get_def)

lemma setCurrentORM_unknown:
  assumes "map_of (tenantORMs s) subdomain = None" and "subdomain \<notin> set Object_prototype"
  shows "setCurrentORM subdomain s =
           (Inl (new_Error (''No tenant with subdomain '' @ subdomain)), s)"
  using assms by (simp add: setCurrentORM_def js_get_def)

text \<open>
  When \<^verbatim>\<open>setCurrentTenantConnection\<close> returns, the tenant's stored binding is the one it
  has just built, and that binding is the active context.
\<close>

lemma setCurrentTenantConnection_returns:
  assumes "setCurrentTenantConnection subdomain s = (Inr (), s')"
  shows "\<exists>orm. map_of (tenantORMs s') subdomain = Some orm \<and> currentORM s' = Own orm"
proof -
  from assms have run:
    "await (createTenantConnection subdomain) (\<lambda>tenantConnection s1.
        await (importModels tenantConnection (tenantModelsPath s1)) (\<lambda>orm s2.
          (let s3 = s2\<lparr>tenantORMs := AList.update subdomain orm (tenantORMs s2)\<rparr>;
               s4 = s3\<lparr>currentORM := js_get (tenantORMs s3) subdomain\<rparr>
           in console_log ''currentORM'' s4)) s1) s = (Inr (), s')"
    by (simp add: setCurrentTenantConnection_def split: if_splits)
  from run obtain c s1 where
    "await (importModels c (tenantModelsPath s1)) (\<lambda>orm s2.
          (let s3 = s2\<lparr>tenantORMs := AList.update subdomain orm (tenantORMs s2)\<rparr>;
               s4 = s3\<lparr>currentORM := js_get (tenantORMs s3) subdomain\<rparr>
           in console_log ''currentORM'' s4)) s1 = (Inr (), s')"
    by (rule await_InrE)
  then obtain orm s2 where
    "(let s3 = s2\<lparr>tenantORMs := AList.update subdomain orm (tenantORMs s2)\<rparr>;
          s4 = s3\<lparr>currentORM := js_get (tenantORMs s3) subdomain\<rparr>
      in console_log ''currentORM'' s4) = (Inr (), s')"
    by (rule await_InrE)
  then have "map_of (tenantORMs s') subdomain = Some orm \<and> currentORM s' = Own orm"
    by (auto simp: console_log_def Let_def update_Some_unfold)
  then show ?thesis ..
qed

end
